theory Spec2Isabelle
  imports Main
begin

section \<open>Data model\<close>

text \<open>
  The media item classes live in \<^verbatim>\<open>music_assistant.models.media_items\<close>; the
  controller in \<^verbatim>\<open>controllers/music/artists.py\<close> only reads and writes the fields
  below.  A \<^verbatim>\<open>ProviderType\<close> is represented by its string value, a
  \<^verbatim>\<open>MediaItemProviderId\<close> by the triple it carries.  \<^verbatim>\<open>ItemMapping\<close> holds the
  four identifying fields that every media item has as well, so the media items are
  record extensions of it.
\<close>

type_synonym ProviderType = string

datatype MediaItemProviderId =
  MediaItemProviderId (prov_item_id: string) (prov_type: ProviderType) (prov_id: string)

record ItemMapping =
  item_id :: string
  provider :: ProviderType
  name :: string
  sort_name :: string

record MediaItem = ItemMapping +
  metadata :: "string \<rightharpoonup> string"
  provider_ids :: "MediaItemProviderId set"
  in_library :: bool

record Artist = MediaItem +
  musicbrainz_id :: "string option"

text \<open>Tracks and albums both carry a \<^verbatim>\<open>version\<close> string (empty by default).\<close>

record VersionedItem = MediaItem +
  version :: string

datatype AlbumType = ALBUM | SINGLE | COMPILATION | UNKNOWN

record Album = VersionedItem +
  album_type :: AlbumType
  artist :: "ItemMapping option"

text \<open>\<^verbatim>\<open>Track.album\<close> is \<^verbatim>\<open>None\<close>, a lightweight \<^verbatim>\<open>ItemMapping\<close> or a full album.\<close>

datatype TrackAlbum = NoAlbum | AlbumMapping ItemMapping | FullAlbum Album

record Track = VersionedItem +
  album :: TrackAlbum
  artists :: "ItemMapping list"


section \<open>Python dictionaries with insertion order\<close>

text \<open>
  \<^verbatim>\<open>final_items\<close> is a \<^verbatim>\<open>Dict[str, ...]\<close> whose \<^verbatim>\<open>values()\<close> are listed in
  insertion order, so it is an association list.  \<open>dict_set\<close> is \<^verbatim>\<open>d[key] = v\<close>,
  \<open>dict_adjust\<close> is a mutation of the object stored under \<^verbatim>\<open>d[key]\<close>.
\<close>

definition dict_contains :: "'k \<Rightarrow> ('k \<times> 'v) list \<Rightarrow> bool" where
  "dict_contains key d = (key \<in> set (map fst d))"

fun dict_set :: "'k \<Rightarrow> 'v \<Rightarrow> ('k \<times> 'v) list \<Rightarrow> ('k \<times> 'v) list" where
  "dict_set key v [] = [(key, v)]"
| "dict_set key v ((k, w) # d) =
     (if k = key then (k, v) # d else (k, w) # dict_set key v d)"

fun dict_adjust :: "'k \<Rightarrow> ('v \<Rightarrow> 'v) \<Rightarrow> ('k \<times> 'v) list \<Rightarrow> ('k \<times> 'v) list" where
  "dict_adjust key f [] = []"
| "dict_adjust key f ((k, w) # d) =
     (if k = key then (k, f w) # d else (k, w) # dict_adjust key f d)"

definition dict_values :: "('k \<times> 'v) list \<Rightarrow> 'v list" where
  "dict_values d = map snd d"


section \<open>Aggregation: \<^verbatim>\<open>toptracks\<close> and \<^verbatim>\<open>albums\<close>\<close>

text \<open>
  The key built by \<^verbatim>\<open>f".{track.name}.{track.version}"\<close> (the same expression is
  used for albums).
\<close>

definition key_of :: "'a VersionedItem_scheme \<Rightarrow> string" where
  "key_of item = ''.'' @ name item @ ''.'' @ version item"

text \<open>
  The body of \<^verbatim>\<open>for track in tracks\<close> in \<^verbatim>\<open>toptracks\<close>; \<open>tracks\<close> is the chained
  sequence of the per-provider results, each of them an object of its own.
\<close>

fun toptracks_loop :: "Track list \<Rightarrow> (string \<times> Track) list \<Rightarrow> (string \<times> Track) list" where
  "toptracks_loop [] final_items = final_items"
| "toptracks_loop (track # tracks) final_items =
     (let key = key_of track in
      if dict_contains key final_items
      then toptracks_loop tracks
             (dict_adjust key
                (\<lambda>v. v\<lparr>provider_ids := provider_ids v \<union> provider_ids track\<rparr>) final_items)
      else toptracks_loop tracks (dict_set key track final_items))"

definition toptracks :: "Track list \<Rightarrow> Track list" where
  "toptracks tracks = dict_values (toptracks_loop tracks [])"

text \<open>The body of \<^verbatim>\<open>for album in albums\<close> in \<^verbatim>\<open>albums\<close> (the loop variable is
  primed, \<open>album\<close> being a field of \<open>Track\<close>).\<close>

fun albums_loop :: "Album list \<Rightarrow> (string \<times> Album) list \<Rightarrow> (string \<times> Album) list" where
  "albums_loop [] final_items = final_items"
| "albums_loop (album' # albums') final_items =
     (let key = key_of album';
          final_items1 =
            (if dict_contains key final_items
             then dict_adjust key
                    (\<lambda>v. v\<lparr>provider_ids := provider_ids v \<union> provider_ids album'\<rparr>) final_items
             else dict_set key album' final_items);
          final_items2 =
            (if in_library album'
             then dict_adjust key (\<lambda>v. v\<lparr>in_library := True\<rparr>) final_items1
             else final_items1)
      in albums_loop albums' final_items2)"

definition albums :: "Album list \<Rightarrow> Album list" where
  "albums albums_in = dict_values (albums_loop albums_in [])"


section \<open>The canonical store\<close>

datatype error = AssertionError | AttributeError

datatype EventType = MEDIA_ITEM_ADDED | MEDIA_ITEM_UPDATED

text \<open>
  \<^verbatim>\<open>MassEvent(type, object_id=db_item.uri, data=db_item)\<close>; the object id is a
  property of \<open>data\<close> and is not kept apart.
\<close>

record MassEvent =
  event_type :: EventType
  data :: Artist

text \<open>
  What the controller reaches through \<^verbatim>\<open>self.mass\<close>: the rows of
  \<^verbatim>\<open>TABLE_ARTISTS\<close> in row order (already read back with
  \<^verbatim>\<open>Artist.from_db_row\<close>), the last row id the table has given out, and the events
  signalled so far.
\<close>

record state =
  artists_table :: "Artist list"
  last_row_id :: nat
  events :: "MassEvent list"

text \<open>Decimal digits of a row id, as \<^verbatim>\<open>str(row["item_id"])\<close> gives them.\<close>

fun str_nat :: "nat \<Rightarrow> string" where
  "str_nat n =
     (if n < 10 then [char_of (48 + n)]
      else str_nat (n div 10) @ [char_of (48 + n mod 10)])"

declare str_nat.simps [simp del]

text \<open>
  The database helper (\<^verbatim>\<open>music_assistant.helpers.database\<close>) is an external
  collaborator; section 6 of the spec gives its row-level interface.  A match dictionary
  is a predicate on rows.
\<close>

text \<open>
  Modelled from the spec: \<^verbatim>\<open>Database.get_row\<close>, section 6
  \<^verbatim>\<open>GetOne(table, matchPredicate)\<close>: the first matching row, if any.
\<close>

definition get_row :: "(Artist \<Rightarrow> bool) \<Rightarrow> state \<Rightarrow> Artist option" where
  "get_row match_row st = find match_row (artists_table st)"

text \<open>
  Modelled from the spec: \<^verbatim>\<open>Database.get_rows\<close>, section 6
  \<^verbatim>\<open>GetMany(table, matchPredicate) -> sequence<row>\<close>: the matching rows in row order.
\<close>

definition get_rows :: "(Artist \<Rightarrow> bool) \<Rightarrow> state \<Rightarrow> Artist list" where
  "get_rows match_row st = filter match_row (artists_table st)"

text \<open>
  Modelled from the spec: \<^verbatim>\<open>Database.insert\<close>, section 6 \<^verbatim>\<open>Insert(table, row) -> row\<close>,
  together with \<^verbatim>\<open>Artist.to_db_row\<close> and \<^verbatim>\<open>Artist.from_db_row\<close>: the row is appended
  under the next row id and reads back as an item of the database provider.  The new
  row's id is returned.
\<close>

definition db_insert :: "Artist \<Rightarrow> state \<Rightarrow> string \<times> state" where
  "db_insert item st =
     (let new_id = str_nat (Suc (last_row_id st)) in
      (new_id,
       st\<lparr>artists_table :=
            artists_table st @ [item\<lparr>item_id := new_id, provider := ''database''\<rparr>],
          last_row_id := Suc (last_row_id st)\<rparr>))"

text \<open>
  Modelled from the spec: \<^verbatim>\<open>Database.update\<close>, section 6
  \<^verbatim>\<open>Update(table, keyPredicate, fields)\<close> with the key predicate
  \<^verbatim>\<open>{"item_id": item_id}\<close>: the given fields are set in every row with that id.
\<close>

definition db_update :: "string \<Rightarrow> (Artist \<Rightarrow> Artist) \<Rightarrow> state \<Rightarrow> state" where
  "db_update iid set_fields st =
     st\<lparr>artists_table :=
          map (\<lambda>row. if item_id row = iid then set_fields row else row) (artists_table st)\<rparr>"

text \<open>
  Modelled from the spec: \<^verbatim>\<open>get_db_item\<close> belongs to the base class
  \<^verbatim>\<open>MediaControllerBase\<close>; section 3: canonical records are addressed by
  \<^verbatim>\<open>localId\<close>.  It yields \<^verbatim>\<open>None\<close> when no row has the id.
\<close>

definition get_db_item :: "string \<Rightarrow> state \<Rightarrow> Artist option" where
  "get_db_item iid st = get_row (\<lambda>row. item_id row = iid) st"

text \<open>
  Modelled from the spec: the metadata payload and its \<^verbatim>\<open>update\<close> method are declared
  in \<^verbatim>\<open>music_assistant.models.media_items\<close>; section 3 makes the payload an open-ended
  key/value annotation, and section 4.4 has it merged key by key, incoming values
  overriding existing ones on conflicting keys.  (The record package owns the name
  \<open>metadata_update\<close>.)
\<close>

definition merge_metadata ::
  "(string \<rightharpoonup> string) \<Rightarrow> (string \<rightharpoonup> string) \<Rightarrow> (string \<rightharpoonup> string)" where
  "merge_metadata cur_metadata new_values = cur_metadata ++ new_values"

text \<open>Python truthiness of an optional string, and \<^verbatim>\<open>a or b\<close> on such values.\<close>

definition truthy :: "string option \<Rightarrow> bool" where
  "truthy v = (case v of None \<Rightarrow> False | Some s \<Rightarrow> s \<noteq> [])"

definition py_or :: "string option \<Rightarrow> string option \<Rightarrow> string option" where
  "py_or a b = (if truthy a then a else b)"

text \<open>
  \<^verbatim>\<open>update_db_item\<close>.  When no row has the id, \<^verbatim>\<open>cur_item\<close> is \<^verbatim>\<open>None\<close>: the
  first attribute access on it raises, or (with \<^verbatim>\<open>overwrite\<close> and a truthy incoming
  musicbrainz id) the update touches no row and \<^verbatim>\<open>db_item.uri\<close> raises; the table is
  as before in both cases.
\<close>

definition update_db_item ::
  "string \<Rightarrow> Artist \<Rightarrow> bool \<Rightarrow> state \<Rightarrow> error + (Artist \<times> state)" where
  "update_db_item iid item overwrite st =
     (case get_db_item iid st of
        None \<Rightarrow> Inl AttributeError
      | Some cur_item \<Rightarrow>
          (let metadata' =
                 (if overwrite then metadata item
                  else merge_metadata (metadata cur_item) (metadata item));
               provider_ids' =
                 (if overwrite then provider_ids item
                  else provider_ids cur_item \<union> provider_ids item);
               st1 = db_update iid
                 (\<lambda>row. row\<lparr>name := (if overwrite then name item else name cur_item),
                            sort_name :=
                              (if overwrite then sort_name item else sort_name cur_item),
                            musicbrainz_id :=
                              py_or (musicbrainz_id item) (musicbrainz_id cur_item),
                            metadata := metadata',
                            provider_ids := provider_ids'\<rparr>) st
           in case get_db_item iid st1 of
                None \<Rightarrow> Inl AttributeError
              | Some db_item \<Rightarrow>
                  Inr (db_item,
                       st1\<lparr>events := events st1 @
                              [\<lparr>event_type = MEDIA_ITEM_UPDATED, data = db_item\<rparr>]\<rparr>)))"

text \<open>The loop \<^verbatim>\<open>for row in get_rows(...)\<close> of \<^verbatim>\<open>add_db_item\<close>, left by \<^verbatim>\<open>break\<close>.\<close>

fun first_sort_name_match :: "Artist \<Rightarrow> Artist list \<Rightarrow> Artist option" where
  "first_sort_name_match item [] = None"
| "first_sort_name_match item (row # rows) =
     (if sort_name row = sort_name item then Some row
      else first_sort_name_match item rows)"

definition add_db_item :: "Artist \<Rightarrow> bool \<Rightarrow> state \<Rightarrow> error + (Artist \<times> state)" where
  "add_db_item item overwrite_existing st =
     (if provider_ids item = {} then Inl AssertionError
      else
        let cur_item0 =
              (if truthy (musicbrainz_id item)
               then get_row (\<lambda>row. musicbrainz_id row = musicbrainz_id item) st
               else None);
            cur_item =
              (case cur_item0 of
                 None \<Rightarrow>
                   first_sort_name_match item
                     (get_rows (\<lambda>row. sort_name row = sort_name item) st)
               | Some row \<Rightarrow> Some row)
        in case cur_item of
             Some cur \<Rightarrow> update_db_item (item_id cur) item overwrite_existing st
           | None \<Rightarrow>
               (case db_insert item st of
                  (new_id, st1) \<Rightarrow>
                    (case get_db_item new_id st1 of
                       None \<Rightarrow> Inl AttributeError
                     | Some db_item \<Rightarrow>
                         Inr (db_item,
                              st1\<lparr>events := events st1 @
                                     [\<lparr>event_type = MEDIA_ITEM_ADDED, data = db_item\<rparr>]\<rparr>))))"


section \<open>Matching an artist on another provider\<close>

text \<open>
  The collaborators \<^verbatim>\<open>_match\<close> consults: the chained per-provider listings behind
  \<^verbatim>\<open>self.toptracks\<close> and \<^verbatim>\<open>self.albums\<close> for a database item id,
  \<^verbatim>\<open>mass.music.tracks.get\<close>, the track and album searches, and
  \<^verbatim>\<open>self.get_provider_item\<close>.  They are lookups: none of them writes the artists table.
\<close>

record collaborators =
  provider_toptracks :: "string \<Rightarrow> Track list"
  provider_albums :: "string \<Rightarrow> Album list"
  tracks_get :: "string \<Rightarrow> ProviderType \<Rightarrow> Track"
  tracks_search :: "string \<Rightarrow> ProviderType \<Rightarrow> Track list"
  albums_search :: "string \<Rightarrow> ProviderType \<Rightarrow> Album list"
  get_provider_item :: "string \<Rightarrow> ProviderType \<Rightarrow> Artist"

text \<open>\<^verbatim>\<open>isinstance(ref_track.album, ItemMapping)\<close>: fetch the full track.\<close>

definition full_track :: "collaborators \<Rightarrow> Track \<Rightarrow> Track" where
  "full_track mass ref_track =
     (case album ref_track of
        AlbumMapping m \<Rightarrow> tracks_get mass (item_id ref_track) (provider ref_track)
      | _ \<Rightarrow> ref_track)"

definition track_search_strs :: "Artist \<Rightarrow> Track \<Rightarrow> string list" where
  "track_search_strs db_artist ref_track =
     [name db_artist @ '' - '' @ name ref_track,
      name db_artist @ '' '' @ name ref_track,
      name ref_track]"

definition album_search_strs :: "Artist \<Rightarrow> Album \<Rightarrow> string list" where
  "album_search_strs db_artist ref_album =
     [name ref_album,
      name db_artist @ '' - '' @ name ref_album,
      name db_artist @ '' '' @ name ref_album]"

text \<open>
  The nested loops of the track phase, innermost first; each returns the artist reference
  at which the source reaches \<^verbatim>\<open>return True\<close>, or \<open>None\<close> when the loop runs out.
\<close>

fun match_track_artists :: "Artist \<Rightarrow> ItemMapping list \<Rightarrow> ItemMapping option" where
  "match_track_artists db_artist [] = None"
| "match_track_artists db_artist (search_item_artist # rest) =
     (if sort_name search_item_artist \<noteq> sort_name db_artist
      then match_track_artists db_artist rest
      else Some search_item_artist)"

fun match_track_results :: "Artist \<Rightarrow> Track \<Rightarrow> Track list \<Rightarrow> ItemMapping option" where
  "match_track_results db_artist ref_track [] = None"
| "match_track_results db_artist ref_track (search_result_item # rest) =
     (if sort_name search_result_item \<noteq> sort_name ref_track
      then match_track_results db_artist ref_track rest
      else (case match_track_artists db_artist (artists search_result_item) of
              Some found \<Rightarrow> Some found
            | None \<Rightarrow> match_track_results db_artist ref_track rest))"

fun match_track_search ::
  "collaborators \<Rightarrow> ProviderType \<Rightarrow> Artist \<Rightarrow> Track \<Rightarrow> string list \<Rightarrow> ItemMapping option" where
  "match_track_search mass prov db_artist ref_track [] = None"
| "match_track_search mass prov db_artist ref_track (search_str # rest) =
     (case match_track_results db_artist ref_track (tracks_search mass search_str prov) of
        Some found \<Rightarrow> Some found
      | None \<Rightarrow> match_track_search mass prov db_artist ref_track rest)"

fun match_ref_tracks ::
  "collaborators \<Rightarrow> ProviderType \<Rightarrow> Artist \<Rightarrow> Track list \<Rightarrow> ItemMapping option" where
  "match_ref_tracks mass prov db_artist [] = None"
| "match_ref_tracks mass prov db_artist (ref_track # rest) =
     (let ref_track' = full_track mass ref_track in
      case match_track_search mass prov db_artist ref_track'
             (track_search_strs db_artist ref_track') of
        Some found \<Rightarrow> Some found
      | None \<Rightarrow> match_ref_tracks mass prov db_artist rest)"

text \<open>The nested loops of the album phase.\<close>

fun match_album_results :: "Album \<Rightarrow> ItemMapping \<Rightarrow> Album list \<Rightarrow> ItemMapping option" where
  "match_album_results ref_album ref_album_artist [] = None"
| "match_album_results ref_album ref_album_artist (search_result_item # rest) =
     (case artist search_result_item of
        None \<Rightarrow> match_album_results ref_album ref_album_artist rest
      | Some result_artist \<Rightarrow>
          if sort_name search_result_item \<noteq> sort_name ref_album
          then match_album_results ref_album ref_album_artist rest
          else if sort_name result_artist \<noteq> sort_name ref_album_artist
          then match_album_results ref_album ref_album_artist rest
          else Some result_artist)"

fun match_album_search ::
  "collaborators \<Rightarrow> ProviderType \<Rightarrow> Album \<Rightarrow> ItemMapping \<Rightarrow> string list \<Rightarrow> ItemMapping option" where
  "match_album_search mass prov ref_album ref_album_artist [] = None"
| "match_album_search mass prov ref_album ref_album_artist (search_str # rest) =
     (case match_album_results ref_album ref_album_artist
             (albums_search mass search_str prov) of
        Some found \<Rightarrow> Some found
      | None \<Rightarrow> match_album_search mass prov ref_album ref_album_artist rest)"

fun match_ref_albums ::
  "collaborators \<Rightarrow> ProviderType \<Rightarrow> Artist \<Rightarrow> Album list \<Rightarrow> ItemMapping option" where
  "match_ref_albums mass prov db_artist [] = None"
| "match_ref_albums mass prov db_artist (ref_album # rest) =
     (if album_type ref_album = COMPILATION then match_ref_albums mass prov db_artist rest
      else (case artist ref_album of
              None \<Rightarrow> match_ref_albums mass prov db_artist rest
            | Some ref_album_artist \<Rightarrow>
                (case match_album_search mass prov ref_album ref_album_artist
                        (album_search_strs db_artist ref_album) of
                   Some found \<Rightarrow> Some found
                 | None \<Rightarrow> match_ref_albums mass prov db_artist rest)))"

text \<open>
  The two statements every confirmation ends with: fetch the provider artist, merge it
  with \<^verbatim>\<open>update_db_item(db_artist.item_id, prov_artist)\<close> (\<^verbatim>\<open>overwrite\<close> left at its
  default \<^verbatim>\<open>False\<close>), \<^verbatim>\<open>return True\<close>.
\<close>

definition confirm_match ::
  "collaborators \<Rightarrow> Artist \<Rightarrow> ItemMapping \<Rightarrow> state \<Rightarrow> error + (bool \<times> state)" where
  "confirm_match mass db_artist found st =
     (let prov_artist = get_provider_item mass (item_id found) (provider found) in
      case update_db_item (item_id db_artist) prov_artist False st of
        Inl e \<Rightarrow> Inl e
      | Inr (db_item, st') \<Rightarrow> Inr (True, st'))"

text \<open>\<^verbatim>\<open>_match\<close> (an Isabelle name cannot start with an underscore).\<close>

definition match ::
  "collaborators \<Rightarrow> Artist \<Rightarrow> ProviderType \<Rightarrow> state \<Rightarrow> error + (bool \<times> state)" where
  "match mass db_artist prov st =
     (case match_ref_tracks mass prov db_artist
             (toptracks (provider_toptracks mass (item_id db_artist))) of
        Some found \<Rightarrow> confirm_match mass db_artist found st
      | None \<Rightarrow>
          (case match_ref_albums mass prov db_artist
                  (albums (provider_albums mass (item_id db_artist))) of
             Some found \<Rightarrow> confirm_match mass db_artist found st
           | None \<Rightarrow> Inr (False, st)))"


section \<open>Notions used to state the properties\<close>

text \<open>Every entry of the dictionary is stored under its own merge key.\<close>

definition keyed :: "(string \<times> 'a VersionedItem_scheme) list \<Rightarrow> bool" where
  "keyed d = (\<forall>(k, v) \<in> set d. key_of v = k)"

text \<open>
  The union of the provider ids of all results with merge key \<open>k\<close>, and whether one
  of the albums with merge key \<open>k\<close> is in the library.
\<close>

definition merged_provider_ids :: "string \<Rightarrow> 'a VersionedItem_scheme list \<Rightarrow> MediaItemProviderId set" where
  "merged_provider_ids k xs = \<Union> (set (map provider_ids (filter (\<lambda>x. key_of x = k) xs)))"

definition merged_in_library :: "string \<Rightarrow> Album list \<Rightarrow> bool" where
  "merged_in_library k xs = (\<exists>x \<in> set xs. key_of x = k \<and> in_library x)"

text \<open>
  The row that \<^verbatim>\<open>update_db_item\<close> writes for \<open>cur_item\<close> and the incoming \<open>item\<close>;
  the row found under an id once an operation has returned, and the value it returned.
\<close>

definition merged_row :: "Artist \<Rightarrow> Artist \<Rightarrow> bool \<Rightarrow> Artist \<Rightarrow> Artist" where
  "merged_row cur_item item overwrite row =
     row\<lparr>name := (if overwrite then name item else name cur_item),
         sort_name := (if overwrite then sort_name item else sort_name cur_item),
         musicbrainz_id := py_or (musicbrainz_id item) (musicbrainz_id cur_item),
         metadata := (if overwrite then metadata item
                      else merge_metadata (metadata cur_item) (metadata item)),
         provider_ids := (if overwrite then provider_ids item
                          else provider_ids cur_item \<union> provider_ids item)\<rparr>"

definition stored_item :: "string \<Rightarrow> error + ('a \<times> state) \<Rightarrow> Artist option" where
  "stored_item iid res = (case res of Inl e \<Rightarrow> None | Inr (v, st') \<Rightarrow> get_db_item iid st')"

definition returned :: "error + ('a \<times> state) \<Rightarrow> 'a option" where
  "returned res = (case res of Inl e \<Rightarrow> None | Inr (v, st') \<Rightarrow> Some v)"

text \<open>
  What the loops of \<^verbatim>\<open>_match\<close> test: a track result \<open>r\<close> with credited artist \<open>a\<close>
  against the reference track and the database artist; an album result \<open>r\<close> with artist
  \<open>a\<close> against the reference album and that album's artist; and the album phase as a
  whole for one reference album.
\<close>

definition track_confirms :: "Artist \<Rightarrow> Track \<Rightarrow> Track \<Rightarrow> ItemMapping \<Rightarrow> bool" where
  "track_confirms db_artist ref_track r a \<longleftrightarrow>
     sort_name r = sort_name ref_track \<and> a \<in> set (artists r) \<and>
     sort_name a = sort_name db_artist"

definition album_confirms :: "Album \<Rightarrow> ItemMapping \<Rightarrow> Album \<Rightarrow> ItemMapping \<Rightarrow> bool" where
  "album_confirms ref_album ref_album_artist r a \<longleftrightarrow>
     artist r = Some a \<and> sort_name r = sort_name ref_album \<and>
     sort_name a = sort_name ref_album_artist"

definition album_phase_confirms ::
  "collaborators \<Rightarrow> ProviderType \<Rightarrow> Artist \<Rightarrow> Album \<Rightarrow> ItemMapping \<Rightarrow> bool" where
  "album_phase_confirms mass prov db_artist ref_album a \<longleftrightarrow>
     album_type ref_album \<noteq> COMPILATION \<and>
     (\<exists>ra. artist ref_album = Some ra \<and>
        (\<exists>s \<in> set (album_search_strs db_artist ref_album).
           \<exists>r \<in> set (albums_search mass s prov). album_confirms ref_album ra r a))"

text \<open>
  The double match in the words of section 4.3 of the spec, to be compared with what
  \<^verbatim>\<open>_match\<close> tests: some search of the track phase returns a result with the
  reference track's \<^verbatim>\<open>sort_name\<close> that credits an artist with the database artist's
  \<^verbatim>\<open>sort_name\<close>, or some search of the album phase returns a result with the
  reference album's \<^verbatim>\<open>sort_name\<close> whose artist has the database artist's
  \<^verbatim>\<open>sort_name\<close>.
\<close>

definition spec_double_match :: "collaborators \<Rightarrow> ProviderType \<Rightarrow> Artist \<Rightarrow> bool" where
  "spec_double_match mass prov db_artist \<longleftrightarrow>
     list_ex (\<lambda>ref_track.
        list_ex (\<lambda>search_str.
           list_ex (\<lambda>r. sort_name r = sort_name (full_track mass ref_track) \<and>
                        list_ex (\<lambda>a. sort_name a = sort_name db_artist) (artists r))
             (tracks_search mass search_str prov))
          (track_search_strs db_artist (full_track mass ref_track)))
       (toptracks (provider_toptracks mass (item_id db_artist))) \<or>
     list_ex (\<lambda>ref_album.
        list_ex (\<lambda>search_str.
           list_ex (\<lambda>r. sort_name r = sort_name ref_album \<and>
                        map_option sort_name (artist r) = Some (sort_name db_artist))
             (albums_search mass search_str prov))
          (album_search_strs db_artist ref_album))
       (albums (provider_albums mass (item_id db_artist)))"


section \<open>Example data\<close>

text \<open>Provider results for the aggregation.\<close>

definition example_track :: "string \<Rightarrow> string \<Rightarrow> string \<Rightarrow> string \<Rightarrow> ProviderType \<Rightarrow> Track" where
  "example_track iid nm snm ver prov =
     \<lparr>item_id = iid, provider = prov, name = nm, sort_name = snm, metadata = Map.empty,
      provider_ids = {MediaItemProviderId iid prov prov}, in_library = False,
      version = ver, album = NoAlbum, artists = []\<rparr>"

definition example_album :: "string \<Rightarrow> string \<Rightarrow> string \<Rightarrow> string \<Rightarrow> ProviderType \<Rightarrow> bool \<Rightarrow> Album" where
  "example_album iid nm snm ver prov lib =
     \<lparr>item_id = iid, provider = prov, name = nm, sort_name = snm, metadata = Map.empty,
      provider_ids = {MediaItemProviderId iid prov prov}, in_library = lib,
      version = ver, album_type = ALBUM, artist = None\<rparr>"

definition track_1 :: Track where "track_1 = example_track ''t1'' ''Hello'' ''hello'' '''' ''spotify''"
definition track_2 :: Track where "track_2 = example_track ''t2'' ''Hello'' ''hello'' '''' ''qobuz''"
definition track_3 :: Track where
  "track_3 = (example_track ''t3'' ''Hello'' ''hello (live)'' '''' ''tidal'')\<lparr>in_library := True\<rparr>"
definition track_4 :: Track where "track_4 = example_track ''t4'' ''HELLO'' ''hello'' '''' ''qobuz''"
definition track_5 :: Track where "track_5 = example_track ''t5'' ''Hello'' ''hello again'' '''' ''tidal''"
definition album_1 :: Album where "album_1 = example_album ''a1'' ''Best'' ''best'' '''' ''spotify'' False"
definition album_2 :: Album where "album_2 = example_album ''a2'' ''Best'' ''best'' '''' ''qobuz'' True"
definition album_3 :: Album where "album_3 = example_album ''a3'' ''Best'' ''best of'' '''' ''tidal'' True"
definition album_4 :: Album where "album_4 = example_album ''a4'' ''BEST'' ''best'' '''' ''qobuz'' False"
definition album_5 :: Album where "album_5 = example_album ''a5'' ''Best'' ''best again'' '''' ''tidal'' False"

text \<open>A store with two artists, and provider artists to add or merge.\<close>

definition example_artist ::
  "string \<Rightarrow> ProviderType \<Rightarrow> string \<Rightarrow> string \<Rightarrow> string option \<Rightarrow> (string \<rightharpoonup> string) \<Rightarrow> Artist" where
  "example_artist iid prov nm snm mbid md =
     \<lparr>item_id = iid, provider = prov, name = nm, sort_name = snm, metadata = md,
      provider_ids = {MediaItemProviderId iid prov prov}, in_library = False,
      musicbrainz_id = mbid\<rparr>"

definition db_artist_1 :: Artist where
  "db_artist_1 =
     (example_artist ''1'' ''database'' ''Queen'' ''queen'' (Some ''mb-queen'')
        [''genre'' \<mapsto> ''rock'', ''bio'' \<mapsto> ''old''])
       \<lparr>provider_ids := {MediaItemProviderId ''q1'' ''spotify'' ''spotify''}\<rparr>"

definition db_artist_2 :: Artist where
  "db_artist_2 =
     (example_artist ''2'' ''database'' ''Muse'' ''muse'' None Map.empty)
       \<lparr>provider_ids := {MediaItemProviderId ''m1'' ''spotify'' ''spotify''}\<rparr>"

definition example_state :: state where
  "example_state = \<lparr>artists_table = [db_artist_1, db_artist_2], last_row_id = 2, events = []\<rparr>"

definition prov_artist_1 :: Artist where
  "prov_artist_1 =
     example_artist ''q9'' ''qobuz'' ''QUEEN'' ''queen (band)'' (Some ''mb-other'')
       [''bio'' \<mapsto> ''new'', ''image'' \<mapsto> ''url'']"

definition prov_artist_2 :: Artist where
  "prov_artist_2 = example_artist ''m7'' ''qobuz'' ''MUSE'' ''muse'' None Map.empty"

definition prov_artist_3 :: Artist where
  "prov_artist_3 =
     example_artist ''q3'' ''tidal'' ''Queen (UK)'' ''queen (band)'' (Some ''mb-queen'') Map.empty"

definition prov_artist_4 :: Artist where
  "prov_artist_4 =
     example_artist ''q9'' ''qobuz'' ''Queen + Friends'' ''queen friends'' None Map.empty"

text \<open>
  A provider whose track search finds nothing by the artist and whose album search
  finds the reference album under the reference album's artist (\<open>example_mass\<close>), or
  under somebody else (\<open>example_mass_2\<close>).
\<close>

definition other_artist :: ItemMapping where
  "other_artist =
     \<lparr>item_id = ''o1'', provider = ''qobuz'', name = ''Somebody'', sort_name = ''somebody''\<rparr>"

definition ref_album_artist :: ItemMapping where
  "ref_album_artist =
     \<lparr>item_id = ''x1'', provider = ''spotify'', name = ''Queen + Friends'',
      sort_name = ''queen friends''\<rparr>"

definition result_album_artist :: ItemMapping where
  "result_album_artist =
     \<lparr>item_id = ''q9'', provider = ''qobuz'', name = ''Queen + Friends'',
      sort_name = ''queen friends''\<rparr>"

definition ref_album_1 :: Album where
  "ref_album_1 =
     (example_album ''a1'' ''Best'' ''best'' '''' ''spotify'' False)\<lparr>artist := Some ref_album_artist\<rparr>"

definition result_album_1 :: Album where
  "result_album_1 =
     (example_album ''a9'' ''Best'' ''best'' '''' ''qobuz'' False)\<lparr>artist := Some result_album_artist\<rparr>"

definition result_album_2 :: Album where
  "result_album_2 =
     (example_album ''a8'' ''Best'' ''best'' '''' ''qobuz'' False)\<lparr>artist := Some other_artist\<rparr>"

definition result_track_1 :: Track where
  "result_track_1 =
     (example_track ''t9'' ''Hello'' ''hello'' '''' ''qobuz'')\<lparr>artists := [other_artist]\<rparr>"

definition example_mass :: collaborators where
  "example_mass =
     \<lparr>provider_toptracks = (\<lambda>iid. if iid = ''1'' then [track_1] else []),
      provider_albums = (\<lambda>iid. if iid = ''1'' then [ref_album_1] else []),
      tracks_get = (\<lambda>iid prov. track_1),
      tracks_search = (\<lambda>search_str prov. if prov = ''qobuz'' then [result_track_1] else []),
      albums_search =
        (\<lambda>search_str prov.
           if search_str = ''Best'' \<and> prov = ''qobuz'' then [result_album_1] else []),
      get_provider_item = (\<lambda>iid prov. prov_artist_4)\<rparr>"

definition example_mass_2 :: collaborators where
  "example_mass_2 =
     example_mass\<lparr>albums_search :=
       (\<lambda>search_str prov. if prov = ''qobuz'' then [result_album_2] else [])\<rparr>"


section \<open>Lemmas about the dictionary and the two merge loops\<close>


lemma map_of_dict_set:
  "map_of (dict_set key v d) k = (if k = key then Some v else map_of d k)"
  by (induction d) auto

lemma map_of_dict_adjust:
  "map_of (dict_adjust key f d) k = (if k = key then map_option f (map_of d key) else map_of d k)"
  by (induction d) auto

lemma keys_dict_set: "map fst (dict_set key v d) = (if key \<in> set (map fst d) then map fst d else map fst d @ [key])"
  by (induction d) (auto simp: rev_image_eqI)

lemma keys_dict_adjust: "map fst (dict_adjust key f d) = map fst d"
  by (induction d) auto

lemma dict_contains_map_of: "dict_contains key d \<longleftrightarrow> map_of d key \<noteq> None"
  by (simp add: dict_contains_def map_of_eq_None_iff)

lemma keyed_dict_set: "keyed d \<Longrightarrow> key_of v = key \<Longrightarrow> keyed (dict_set key v d)"
  unfolding keyed_def by (induction d) (auto split: if_splits)

lemma keyed_dict_adjust: "keyed d \<Longrightarrow> (\<And>w. key_of (f w) = key_of w) \<Longrightarrow> keyed (dict_adjust key f d)"
  unfolding keyed_def by (induction d) (auto split: if_splits)

lemma values_of_key:
  "distinct (map fst d) \<Longrightarrow> keyed d \<Longrightarrow> map_of d k = Some v \<Longrightarrow>
   filter (\<lambda>e. key_of e = k) (dict_values d) = [v]"
proof (induction d)
  case Nil then show ?case by simp
next
  case (Cons p d)
  obtain k' w where p: "p = (k', w)" by (cases p)
  show ?case
  proof (cases "k' = k")
    case True
    have "\<forall>e \<in> set (map snd d). key_of e \<noteq> k"
      using Cons.prems(1,2) p True unfolding keyed_def by force
    then have "filter (\<lambda>e. key_of e = k) (map snd d) = []" by (simp add: filter_empty_conv)
    with Cons.prems p True show ?thesis by (auto simp: dict_values_def keyed_def)
  next
    case False
    with Cons p show ?thesis by (auto simp: dict_values_def keyed_def)
  qed
qed

lemma key_of_update [simp]:
  "key_of (v\<lparr>provider_ids := A\<rparr>) = key_of v"
  "key_of (v\<lparr>in_library := b\<rparr>) = key_of v"
  by (simp_all add: key_of_def)

lemma merged_provider_ids_simps:
  "merged_provider_ids k [] = {}"
  "merged_provider_ids k (x # xs) =
     (if key_of x = k then provider_ids x \<union> merged_provider_ids k xs else merged_provider_ids k xs)"
  by (simp_all add: merged_provider_ids_def)

lemma toptracks_loop_keys_distinct:
  "distinct (map fst d) \<Longrightarrow> distinct (map fst (toptracks_loop xs d))"
  by (induction xs arbitrary: d)
     (auto simp: Let_def keys_dict_set keys_dict_adjust dict_contains_def)

lemma toptracks_loop_keyed:
  "keyed d \<Longrightarrow> keyed (toptracks_loop xs d)"
  by (induction xs arbitrary: d)
     (auto simp: Let_def keyed_dict_set keyed_dict_adjust)

lemma toptracks_loop_map_of:
  "map_of (toptracks_loop xs d) k =
     (case map_of d k of
        Some v \<Rightarrow> Some (v\<lparr>provider_ids := provider_ids v \<union> merged_provider_ids k xs\<rparr>)
      | None \<Rightarrow>
          (case find (\<lambda>x. key_of x = k) xs of
             None \<Rightarrow> None
           | Some f \<Rightarrow> Some (f\<lparr>provider_ids := merged_provider_ids k xs\<rparr>)))"
proof (induction xs arbitrary: d)
  case Nil
  show ?case by (simp add: merged_provider_ids_simps split: option.splits)
next
  case (Cons x xs)
  show ?case
  proof (cases "dict_contains (key_of x) d")
    case True
    then obtain w where w: "map_of d (key_of x) = Some w"
      by (auto simp: dict_contains_map_of)
    show ?thesis
      using True w
      by (simp add: Cons.IH map_of_dict_adjust merged_provider_ids_simps Un_assoc
               split: option.splits)
  next
    case False
    then have n: "map_of d (key_of x) = None"
      by (simp add: dict_contains_map_of)
    show ?thesis
      using False n
      by (simp add: Cons.IH map_of_dict_set merged_provider_ids_simps split: option.splits)
  qed
qed

lemma find_key_Some:
  "a \<in> set xs \<Longrightarrow> \<exists>f. find (\<lambda>x. key_of x = key_of a) xs = Some f"
  by (cases "find (\<lambda>x. key_of x = key_of a) xs") (auto simp: find_None_iff)

lemma toptracks_entry:
  assumes "find (\<lambda>x. key_of x = k) tracks = Some f"
  shows "filter (\<lambda>e. key_of e = k) (toptracks tracks)
           = [f\<lparr>provider_ids := merged_provider_ids k tracks\<rparr>]"
proof -
  have "map_of (toptracks_loop tracks []) k = Some (f\<lparr>provider_ids := merged_provider_ids k tracks\<rparr>)"
    using assms by (simp add: toptracks_loop_map_of)
  moreover have "distinct (map fst (toptracks_loop tracks []))"
    by (rule toptracks_loop_keys_distinct) simp
  moreover have "keyed (toptracks_loop tracks [])"
    by (rule toptracks_loop_keyed) (simp add: keyed_def)
  ultimately show ?thesis
    unfolding toptracks_def by (rule values_of_key[rotated 2])
qed

lemma merged_in_library_simps:
  "merged_in_library k [] = False"
  "merged_in_library k (x # xs) = ((key_of x = k \<and> in_library x) \<or> merged_in_library k xs)"
  by (auto simp: merged_in_library_def)

lemma albums_loop_keys_distinct:
  "distinct (map fst d) \<Longrightarrow> distinct (map fst (albums_loop xs d))"
  by (induction xs arbitrary: d)
     (auto simp: Let_def keys_dict_set keys_dict_adjust dict_contains_def)

lemma albums_loop_keyed:
  "keyed d \<Longrightarrow> keyed (albums_loop xs d)"
  by (induction xs arbitrary: d)
     (auto simp: Let_def keyed_dict_set keyed_dict_adjust)

lemma albums_loop_map_of:
  "map_of (albums_loop xs d) k =
     (case map_of d k of
        Some v \<Rightarrow> Some (v\<lparr>provider_ids := provider_ids v \<union> merged_provider_ids k xs,
                          in_library := in_library v \<or> merged_in_library k xs\<rparr>)
      | None \<Rightarrow>
          (case find (\<lambda>x. key_of x = k) xs of
             None \<Rightarrow> None
           | Some f \<Rightarrow> Some (f\<lparr>provider_ids := merged_provider_ids k xs,
                                in_library := merged_in_library k xs\<rparr>)))"
proof (induction xs arbitrary: d)
  case Nil
  show ?case by (simp add: merged_provider_ids_simps merged_in_library_simps split: option.splits)
next
  case (Cons x xs)
  show ?case
  proof (cases "dict_contains (key_of x) d")
    case True
    then obtain w where w: "map_of d (key_of x) = Some w"
      by (auto simp: dict_contains_map_of)
    show ?thesis
      using True w
      by (auto simp add: Let_def Cons.IH map_of_dict_adjust merged_provider_ids_simps
               merged_in_library_simps Un_assoc
               split: option.splits)
  next
    case False
    then have n: "map_of d (key_of x) = None"
      by (simp add: dict_contains_map_of)
    show ?thesis
      using False n
      by (auto simp add: Let_def Cons.IH map_of_dict_set map_of_dict_adjust
            merged_provider_ids_simps merged_in_library_simps split: option.splits)
  qed
qed

lemma albums_entry:
  assumes "find (\<lambda>x. key_of x = k) albs = Some f"
  shows "filter (\<lambda>e. key_of e = k) (albums albs)
           = [f\<lparr>provider_ids := merged_provider_ids k albs,
                in_library := merged_in_library k albs\<rparr>]"
proof -
  have "map_of (albums_loop albs []) k =
          Some (f\<lparr>provider_ids := merged_provider_ids k albs,
                  in_library := merged_in_library k albs\<rparr>)"
    using assms by (simp add: albums_loop_map_of)
  moreover have "distinct (map fst (albums_loop albs []))"
    by (rule albums_loop_keys_distinct) simp
  moreover have "keyed (albums_loop albs [])"
    by (rule albums_loop_keyed) (simp add: keyed_def)
  ultimately show ?thesis
    unfolding albums_def by (rule values_of_key[rotated 2])
qed

lemma merged_provider_ids_superset:
  "a \<in> set xs \<Longrightarrow> provider_ids a \<subseteq> merged_provider_ids (key_of a) xs"
  by (auto simp: merged_provider_ids_def)

lemma merged_provider_ids_pair:
  assumes "a \<in> set xs" "b \<in> set xs" "key_of a = key_of b"
    and "\<forall>x \<in> set xs. key_of x = key_of a \<longrightarrow> x = a \<or> x = b"
  shows "merged_provider_ids (key_of a) xs = provider_ids a \<union> provider_ids b"
  using assms unfolding merged_provider_ids_def by auto

lemmas example_defs =
  track_1_def track_2_def track_3_def track_4_def track_5_def
  album_1_def album_2_def album_3_def album_4_def album_5_def
  example_track_def example_album_def

lemma find_first:
  "\<forall>x \<in> set pre. \<not> P x \<Longrightarrow> P f \<Longrightarrow> find P (pre @ f # post) = Some f"
  by (induction pre) auto

lemma merged_in_library_member:
  "a \<in> set albs \<Longrightarrow> in_library a \<Longrightarrow> merged_in_library (key_of a) albs"
  by (auto simp: merged_in_library_def)


section \<open>Properties of the aggregation\<close>

text \<open>
  C3: whenever two results of one aggregation (\<^verbatim>\<open>toptracks\<close> or \<^verbatim>\<open>albums\<close>) have
  equal merge keys, the output has exactly one entry with that key, wherever the two
  stand in the input.  The entry's provider ids are the union of the provider ids of
  all results with that key: they contain those of both results, and are exactly the
  union of the two when no other result shares the key.
\<close>

theorem aggregation_unions_provider_ids:
  "(a \<in> set tracks \<and> b \<in> set tracks \<and> key_of a = key_of b \<longrightarrow>
      (\<exists>e. filter (\<lambda>x. key_of x = key_of a) (toptracks tracks) = [e] \<and>
           provider_ids e = merged_provider_ids (key_of a) tracks \<and>
           provider_ids a \<union> provider_ids b \<subseteq> provider_ids e \<and>
           ((\<forall>x \<in> set tracks. key_of x = key_of a \<longrightarrow> x = a \<or> x = b) \<longrightarrow>
              provider_ids e = provider_ids a \<union> provider_ids b))) \<and>
   (c \<in> set albs \<and> d \<in> set albs \<and> key_of c = key_of d \<longrightarrow>
      (\<exists>e. filter (\<lambda>x. key_of x = key_of c) (albums albs) = [e] \<and>
           provider_ids e = merged_provider_ids (key_of c) albs \<and>
           provider_ids c \<union> provider_ids d \<subseteq> provider_ids e \<and>
           ((\<forall>x \<in> set albs. key_of x = key_of c \<longrightarrow> x = c \<or> x = d) \<longrightarrow>
              provider_ids e = provider_ids c \<union> provider_ids d)))"
proof (intro conjI impI)
  assume h: "a \<in> set tracks \<and> b \<in> set tracks \<and> key_of a = key_of b"
  then obtain f where f: "find (\<lambda>x. key_of x = key_of a) tracks = Some f"
    using find_key_Some by blast
  let ?e = "f\<lparr>provider_ids := merged_provider_ids (key_of a) tracks\<rparr>"
  have "filter (\<lambda>x. key_of x = key_of a) (toptracks tracks) = [?e]"
    by (rule toptracks_entry[OF f])
  moreover have "provider_ids a \<union> provider_ids b \<subseteq> provider_ids ?e"
    using h merged_provider_ids_superset[of a tracks] merged_provider_ids_superset[of b tracks]
    by simp
  moreover have "(\<forall>x \<in> set tracks. key_of x = key_of a \<longrightarrow> x = a \<or> x = b) \<longrightarrow>
      provider_ids ?e = provider_ids a \<union> provider_ids b"
    using h merged_provider_ids_pair[of a tracks b] by simp
  ultimately show "\<exists>e. filter (\<lambda>x. key_of x = key_of a) (toptracks tracks) = [e] \<and>
           provider_ids e = merged_provider_ids (key_of a) tracks \<and>
           provider_ids a \<union> provider_ids b \<subseteq> provider_ids e \<and>
           ((\<forall>x \<in> set tracks. key_of x = key_of a \<longrightarrow> x = a \<or> x = b) \<longrightarrow>
              provider_ids e = provider_ids a \<union> provider_ids b)"
    by (intro exI[of _ ?e]) simp
next
  assume h: "c \<in> set albs \<and> d \<in> set albs \<and> key_of c = key_of d"
  then obtain f where f: "find (\<lambda>x. key_of x = key_of c) albs = Some f"
    using find_key_Some by blast
  let ?e = "f\<lparr>provider_ids := merged_provider_ids (key_of c) albs,
               in_library := merged_in_library (key_of c) albs\<rparr>"
  have "filter (\<lambda>x. key_of x = key_of c) (albums albs) = [?e]"
    by (rule albums_entry[OF f])
  moreover have "provider_ids c \<union> provider_ids d \<subseteq> provider_ids ?e"
    using h merged_provider_ids_superset[of c albs] merged_provider_ids_superset[of d albs]
    by simp
  moreover have "(\<forall>x \<in> set albs. key_of x = key_of c \<longrightarrow> x = c \<or> x = d) \<longrightarrow>
      provider_ids ?e = provider_ids c \<union> provider_ids d"
    using h merged_provider_ids_pair[of c albs d] by simp
  ultimately show "\<exists>e. filter (\<lambda>x. key_of x = key_of c) (albums albs) = [e] \<and>
           provider_ids e = merged_provider_ids (key_of c) albs \<and>
           provider_ids c \<union> provider_ids d \<subseteq> provider_ids e \<and>
           ((\<forall>x \<in> set albs. key_of x = key_of c \<longrightarrow> x = c \<or> x = d) \<longrightarrow>
              provider_ids e = provider_ids c \<union> provider_ids d)"
    by (intro exI[of _ ?e]) simp
qed

theorem aggregation_unions_provider_ids_witness:
  "(track_1 \<in> set [track_1, track_2] \<and> track_2 \<in> set [track_1, track_2] \<and>
    key_of track_1 = key_of track_2) \<and>
   (album_2 \<in> set [album_2, album_1] \<and> album_1 \<in> set [album_2, album_1] \<and>
    key_of album_2 = key_of album_1) \<and>
   (\<exists>e. filter (\<lambda>x. key_of x = key_of track_1) (toptracks [track_1, track_2]) = [e] \<and>
        provider_ids e = provider_ids track_1 \<union> provider_ids track_2) \<and>
   (\<exists>e. filter (\<lambda>x. key_of x = key_of album_2) (albums [album_2, album_1]) = [e] \<and>
        provider_ids e = provider_ids album_2 \<union> provider_ids album_1)"
proof -
  have k1: "key_of track_1 = key_of track_2"
    by (simp add: example_defs key_of_def)
  have k2: "key_of album_2 = key_of album_1"
    by (simp add: example_defs key_of_def)
  from aggregation_unions_provider_ids[of track_1 "[track_1, track_2]" track_2
         album_2 "[album_2, album_1]" album_1] k1 k2
  show ?thesis by auto
qed

text \<open>
  C8: in the album aggregation, when an album result that has \<^verbatim>\<open>in_library\<close> set
  occurs anywhere in the input, the one output entry with its merge key has
  \<^verbatim>\<open>in_library\<close> set.
\<close>

theorem albums_in_library_sticky:
  assumes "a \<in> set albs" and "in_library a"
  shows "\<exists>e. filter (\<lambda>x. key_of x = key_of a) (albums albs) = [e] \<and> in_library e"
proof -
  obtain f where f: "find (\<lambda>x. key_of x = key_of a) albs = Some f"
    using assms(1) find_key_Some by blast
  have "merged_in_library (key_of a) albs"
    using assms by (rule merged_in_library_member)
  with albums_entry[OF f] show ?thesis by simp
qed

theorem albums_in_library_sticky_witness:
  "album_2 \<in> set [album_1, album_2] \<and> in_library album_2 \<and> \<not> in_library album_1 \<and>
   (\<exists>e. filter (\<lambda>x. key_of x = key_of album_2) (albums [album_1, album_2]) = [e] \<and>
        in_library e)"
proof -
  have m: "album_2 \<in> set [album_1, album_2]" by simp
  have l: "in_library album_2" by (simp add: album_2_def example_album_def)
  have n: "\<not> in_library album_1" by (simp add: album_1_def example_album_def)
  from albums_in_library_sticky[OF m l] m l n show ?thesis by blast
qed

text \<open>
  C10: when results collide on a merge key, the output entry is the first-seen result
  with that key (no earlier result of the input has the key), in which only
  \<^verbatim>\<open>provider_ids\<close> is replaced by the union over all results with the key and, for
  albums, \<^verbatim>\<open>in_library\<close> by the disjunction over them.  Every other field is the first
  result's; those of the later duplicates are dropped.
\<close>

theorem first_seen_result_wins:
  "(tracks = pre @ f # post \<and> (\<forall>x \<in> set pre. key_of x \<noteq> key_of f) \<longrightarrow>
      filter (\<lambda>x. key_of x = key_of f) (toptracks tracks) =
        [f\<lparr>provider_ids := merged_provider_ids (key_of f) tracks\<rparr>]) \<and>
   (albs = pre' @ g # post' \<and> (\<forall>x \<in> set pre'. key_of x \<noteq> key_of g) \<longrightarrow>
      filter (\<lambda>x. key_of x = key_of g) (albums albs) =
        [g\<lparr>provider_ids := merged_provider_ids (key_of g) albs,
           in_library := merged_in_library (key_of g) albs\<rparr>])"
proof (intro conjI impI)
  assume h: "tracks = pre @ f # post \<and> (\<forall>x \<in> set pre. key_of x \<noteq> key_of f)"
  then have "find (\<lambda>x. key_of x = key_of f) tracks = Some f"
    by (simp add: find_first)
  then show "filter (\<lambda>x. key_of x = key_of f) (toptracks tracks) =
        [f\<lparr>provider_ids := merged_provider_ids (key_of f) tracks\<rparr>]"
    by (rule toptracks_entry)
next
  assume h: "albs = pre' @ g # post' \<and> (\<forall>x \<in> set pre'. key_of x \<noteq> key_of g)"
  then have "find (\<lambda>x. key_of x = key_of g) albs = Some g"
    by (simp add: find_first)
  then show "filter (\<lambda>x. key_of x = key_of g) (albums albs) =
        [g\<lparr>provider_ids := merged_provider_ids (key_of g) albs,
           in_library := merged_in_library (key_of g) albs\<rparr>]"
    by (rule albums_entry)
qed

theorem first_seen_result_wins_witness:
  "key_of track_3 = key_of track_1 \<and> key_of album_3 = key_of album_1 \<and>
   toptracks [track_1, track_3] =
     [track_1\<lparr>provider_ids := provider_ids track_1 \<union> provider_ids track_3\<rparr>] \<and>
   albums [album_1, album_3] =
     [album_1\<lparr>provider_ids := provider_ids album_1 \<union> provider_ids album_3,
              in_library := True\<rparr>]"
proof -
  have k: "key_of track_3 = key_of track_1" "key_of album_3 = key_of album_1"
    by (simp_all add: example_defs key_of_def)
  have t: "toptracks [track_1, track_3] = filter (\<lambda>x. key_of x = key_of track_1) (toptracks [track_1, track_3])"
    by (simp add: toptracks_def dict_values_def dict_contains_def k)
  have a: "albums [album_1, album_3] = filter (\<lambda>x. key_of x = key_of album_1) (albums [album_1, album_3])"
    by (simp add: albums_def dict_values_def dict_contains_def k Let_def)
  have l: "in_library album_3" by (simp add: example_defs)
  from first_seen_result_wins[of "[track_1, track_3]" "[]" track_1 "[track_3]"
        "[album_1, album_3]" "[]" album_1 "[album_3]"]
  show ?thesis
    by (simp add: k t[symmetric] a[symmetric] merged_provider_ids_def merged_in_library_def l)
qed

text \<open>
  C4, as stated, fails: two results with equal \<^verbatim>\<open>sort_name\<close> and \<^verbatim>\<open>version\<close> but
  different display names stay two entries.
\<close>

theorem merge_key_sort_name_counterexample:
  "sort_name track_1 = sort_name track_4 \<and> version track_1 = version track_4 \<and>
   name track_1 \<noteq> name track_4 \<and>
   map item_id (toptracks [track_1, track_4]) = [''t1'', ''t4''] \<and>
   sort_name album_1 = sort_name album_4 \<and> version album_1 = version album_4 \<and>
   name album_1 \<noteq> name album_4 \<and>
   map item_id (albums [album_1, album_4]) = [''a1'', ''a4'']"
  by (simp add: example_defs toptracks_def albums_def dict_values_def dict_contains_def key_of_def)

text \<open>
  C4, amended: the merge key is \<^verbatim>\<open>"." + name + "." + version\<close> with the display name.
  Two results with equal \<^verbatim>\<open>name\<close> and \<^verbatim>\<open>version\<close> end up in one entry that holds the
  provider ids of both, whatever their \<^verbatim>\<open>sort_name\<close>s are.
\<close>

theorem merge_key_uses_display_name:
  "(a \<in> set tracks \<and> b \<in> set tracks \<and> name a = name b \<and> version a = version b \<longrightarrow>
      (\<exists>e. filter (\<lambda>x. key_of x = ''.'' @ name a @ ''.'' @ version a) (toptracks tracks) = [e] \<and>
           provider_ids a \<union> provider_ids b \<subseteq> provider_ids e)) \<and>
   (c \<in> set albs \<and> d \<in> set albs \<and> name c = name d \<and> version c = version d \<longrightarrow>
      (\<exists>e. filter (\<lambda>x. key_of x = ''.'' @ name c @ ''.'' @ version c) (albums albs) = [e] \<and>
           provider_ids c \<union> provider_ids d \<subseteq> provider_ids e))"
proof (intro conjI impI)
  assume h: "a \<in> set tracks \<and> b \<in> set tracks \<and> name a = name b \<and> version a = version b"
  then have k: "key_of b = key_of a" by (simp add: key_of_def)
  obtain f where f: "find (\<lambda>x. key_of x = key_of a) tracks = Some f"
    using h find_key_Some by blast
  have "provider_ids a \<union> provider_ids b \<subseteq> merged_provider_ids (key_of a) tracks"
    using h k merged_provider_ids_superset[of a tracks] merged_provider_ids_superset[of b tracks]
    by simp
  with toptracks_entry[OF f]
  show "\<exists>e. filter (\<lambda>x. key_of x = ''.'' @ name a @ ''.'' @ version a) (toptracks tracks) = [e] \<and>
           provider_ids a \<union> provider_ids b \<subseteq> provider_ids e"
    by (simp add: key_of_def)
next
  assume h: "c \<in> set albs \<and> d \<in> set albs \<and> name c = name d \<and> version c = version d"
  then have k: "key_of d = key_of c" by (simp add: key_of_def)
  obtain f where f: "find (\<lambda>x. key_of x = key_of c) albs = Some f"
    using h find_key_Some by blast
  have "provider_ids c \<union> provider_ids d \<subseteq> merged_provider_ids (key_of c) albs"
    using h k merged_provider_ids_superset[of c albs] merged_provider_ids_superset[of d albs]
    by simp
  with albums_entry[OF f]
  show "\<exists>e. filter (\<lambda>x. key_of x = ''.'' @ name c @ ''.'' @ version c) (albums albs) = [e] \<and>
           provider_ids c \<union> provider_ids d \<subseteq> provider_ids e"
    by (simp add: key_of_def)
qed

theorem merge_key_uses_display_name_witness:
  "name track_1 = name track_5 \<and> version track_1 = version track_5 \<and>
   sort_name track_1 \<noteq> sort_name track_5 \<and>
   (\<exists>e. filter (\<lambda>x. key_of x = ''.Hello.'') (toptracks [track_5, track_1]) = [e] \<and>
        provider_ids track_1 \<union> provider_ids track_5 \<subseteq> provider_ids e) \<and>
   name album_1 = name album_5 \<and> version album_1 = version album_5 \<and>
   sort_name album_1 \<noteq> sort_name album_5 \<and>
   (\<exists>e. filter (\<lambda>x. key_of x = ''.Best.'') (albums [album_5, album_1]) = [e] \<and>
        provider_ids album_1 \<union> provider_ids album_5 \<subseteq> provider_ids e)"
proof -
  have t: "name track_1 = name track_5 \<and> version track_1 = version track_5 \<and>
           sort_name track_1 \<noteq> sort_name track_5 \<and> name track_1 = ''Hello'' \<and> version track_1 = '''' \<and>
           name track_5 = ''Hello'' \<and> version track_5 = ''''"
    by (simp add: track_1_def track_5_def example_track_def)
  have a: "name album_1 = name album_5 \<and> version album_1 = version album_5 \<and>
           sort_name album_1 \<noteq> sort_name album_5 \<and> name album_1 = ''Best'' \<and> version album_1 = '''' \<and>
           name album_5 = ''Best'' \<and> version album_5 = ''''"
    by (simp add: album_1_def album_5_def example_album_def)
  from merge_key_uses_display_name[of track_1 "[track_5, track_1]" track_5
         album_1 "[album_5, album_1]" album_5] t a
  show ?thesis by simp
qed

section \<open>Lemmas about the store\<close>

lemmas store_example_defs =
  example_artist_def db_artist_1_def db_artist_2_def example_state_def
  prov_artist_1_def prov_artist_2_def prov_artist_3_def

lemma example_get_1: "get_db_item ''1'' example_state = Some db_artist_1"
  by (simp add: get_db_item_def get_row_def store_example_defs)

lemma str_nat_3: "str_nat 3 = ''3''"
  by code_simp

lemma find_map_update:
  assumes "\<And>row. item_id (f row) = item_id row"
  shows "find (\<lambda>row. item_id row = iid) (map (\<lambda>row. if item_id row = iid then f row else row) rows)
         = map_option f (find (\<lambda>row. item_id row = iid) rows)"
  using assms by (induction rows) auto

lemma get_db_item_db_update:
  assumes "\<And>row. item_id (f row) = item_id row"
  shows "get_db_item iid (db_update iid f st) = map_option f (get_db_item iid st)"
  using find_map_update[OF assms]
  by (simp add: get_db_item_def get_row_def db_update_def)

lemma update_db_item_Some:
  assumes "get_db_item iid st = Some cur_item"
  shows "update_db_item iid item overwrite st =
           Inr (merged_row cur_item item overwrite cur_item,
                (db_update iid (merged_row cur_item item overwrite) st)
                  \<lparr>events := events st @
                     [\<lparr>event_type = MEDIA_ITEM_UPDATED,
                       data = merged_row cur_item item overwrite cur_item\<rparr>]\<rparr>)"
proof -
  have g: "get_db_item iid (db_update iid (merged_row cur_item item overwrite) st)
             = Some (merged_row cur_item item overwrite cur_item)"
    using assms by (subst get_db_item_db_update) (simp_all add: merged_row_def)
  have e: "events (db_update iid (merged_row cur_item item overwrite) st) = events st"
    by (simp add: db_update_def)
  show ?thesis
    unfolding update_db_item_def
    using assms g e by (simp add: Let_def merged_row_def[abs_def])
qed

lemma update_db_item_None:
  "get_db_item iid st = None \<Longrightarrow> update_db_item iid item overwrite st = Inl AttributeError"
  by (simp add: update_db_item_def)

lemma get_db_item_events [simp]: "get_db_item iid (st\<lparr>events := es\<rparr>) = get_db_item iid st"
  by (simp add: get_db_item_def get_row_def)

lemma update_db_item_stored:
  assumes "get_db_item iid st = Some cur_item"
  shows "\<exists>st'. update_db_item iid item overwrite st =
                 Inr (merged_row cur_item item overwrite cur_item, st') \<and>
               get_db_item iid st' = Some (merged_row cur_item item overwrite cur_item)"
proof -
  have "get_db_item iid (db_update iid (merged_row cur_item item overwrite) st)
             = Some (merged_row cur_item item overwrite cur_item)"
    using assms by (subst get_db_item_db_update) (simp_all add: merged_row_def)
  then show ?thesis
    by (simp add: update_db_item_Some[OF assms])
qed

lemma first_sort_name_match_filter:
  "first_sort_name_match item (filter (\<lambda>row. sort_name row = sort_name item) rows)
     = find (\<lambda>row. sort_name row = sort_name item) rows"
  by (induction rows) auto

lemma find_none: "\<forall>x \<in> set xs. \<not> P x \<Longrightarrow> find P xs = None"
  by (simp add: find_None_iff)

lemma find_snoc_Some: "P x \<Longrightarrow> \<exists>y. find P (xs @ [x]) = Some y"
  by (cases "find P (xs @ [x])") (auto simp: find_None_iff)

lemma get_db_item_member:
  "r \<in> set (artists_table st) \<Longrightarrow> \<exists>c. get_db_item (item_id r) st = Some c"
  by (cases "get_db_item (item_id r) st") (auto simp: get_db_item_def get_row_def find_None_iff)

lemma no_musicbrainz_id_match:
  assumes "musicbrainz_id item = None \<or> musicbrainz_id item = Some [] \<or>
           (\<forall>x \<in> set (artists_table st). musicbrainz_id x \<noteq> musicbrainz_id item)"
  shows "(if truthy (musicbrainz_id item)
          then get_row (\<lambda>row. musicbrainz_id row = musicbrainz_id item) st else None) = None"
proof (cases "truthy (musicbrainz_id item)")
  case False
  then show ?thesis by simp
next
  case True
  then have "musicbrainz_id item \<noteq> None" "musicbrainz_id item \<noteq> Some []"
    by (auto simp: truthy_def split: option.splits)
  with assms have "\<forall>x \<in> set (artists_table st). \<not> (musicbrainz_id x = musicbrainz_id item)"
    by blast
  then have "find (\<lambda>row. musicbrainz_id row = musicbrainz_id item) (artists_table st) = None"
    by (rule find_none)
  with True show ?thesis by (simp add: get_row_def)
qed

lemma add_db_item_by_musicbrainz_id:
  assumes "provider_ids item \<noteq> {}" "musicbrainz_id item = Some m" "m \<noteq> []"
    and "artists_table st = pre @ r # post"
    and "\<forall>x \<in> set pre. musicbrainz_id x \<noteq> Some m" "musicbrainz_id r = Some m"
  shows "add_db_item item ow st = update_db_item (item_id r) item ow st"
proof -
  have "find (\<lambda>row. musicbrainz_id row = Some m) (artists_table st) = Some r"
    unfolding assms(4) using assms(5,6) by (intro find_first) auto
  then show ?thesis
    using assms(1-3) by (simp add: add_db_item_def get_row_def truthy_def)
qed

lemma add_db_item_by_sort_name:
  assumes "provider_ids item \<noteq> {}"
    and "musicbrainz_id item = None \<or> musicbrainz_id item = Some [] \<or>
         (\<forall>x \<in> set (artists_table st). musicbrainz_id x \<noteq> musicbrainz_id item)"
    and "artists_table st = pre @ r # post"
    and "\<forall>x \<in> set pre. sort_name x \<noteq> sort_name item" "sort_name r = sort_name item"
  shows "add_db_item item ow st = update_db_item (item_id r) item ow st"
proof -
  have a: "(if truthy (musicbrainz_id item)
            then get_row (\<lambda>row. musicbrainz_id row = musicbrainz_id item) st else None) = None"
    using assms(2) by (rule no_musicbrainz_id_match)
  have "find (\<lambda>row. sort_name row = sort_name item) (artists_table st) = Some r"
    unfolding assms(3) using assms(4,5) by (intro find_first) auto
  then have b: "first_sort_name_match item (get_rows (\<lambda>row. sort_name row = sort_name item) st) = Some r"
    by (simp only: get_rows_def first_sort_name_match_filter)
  show ?thesis
    using assms(1) by (simp add: add_db_item_def a b)
qed

lemma add_db_item_insert:
  assumes "provider_ids item \<noteq> {}"
    and "musicbrainz_id item = None \<or> musicbrainz_id item = Some [] \<or>
         (\<forall>x \<in> set (artists_table st). musicbrainz_id x \<noteq> musicbrainz_id item)"
    and "\<forall>x \<in> set (artists_table st). sort_name x \<noteq> sort_name item"
  shows "\<exists>db_item st'. add_db_item item ow st = Inr (db_item, st') \<and>
           artists_table st' = artists_table st @
             [item\<lparr>item_id := str_nat (Suc (last_row_id st)), provider := ''database''\<rparr>] \<and>
           events st' = events st @ [\<lparr>event_type = MEDIA_ITEM_ADDED, data = db_item\<rparr>]"
proof -
  let ?new_id = "str_nat (Suc (last_row_id st))"
  let ?row = "item\<lparr>item_id := ?new_id, provider := ''database''\<rparr>"
  have a: "(if truthy (musicbrainz_id item)
            then get_row (\<lambda>row. musicbrainz_id row = musicbrainz_id item) st else None) = None"
    using assms(2) by (rule no_musicbrainz_id_match)
  have "find (\<lambda>row. sort_name row = sort_name item) (artists_table st) = None"
    using assms(3) by (intro find_none) blast
  then have b: "first_sort_name_match item (get_rows (\<lambda>row. sort_name row = sort_name item) st) = None"
    by (simp only: get_rows_def first_sort_name_match_filter)
  obtain y where y: "find (\<lambda>row. item_id row = ?new_id) (artists_table st @ [?row]) = Some y"
    using find_snoc_Some[of "\<lambda>row. item_id row = ?new_id" ?row "artists_table st"] by auto
  show ?thesis
    using assms(1) y
    by (simp add: add_db_item_def a b db_insert_def Let_def get_db_item_def get_row_def)
qed

lemma get_db_item_distinct:
  assumes "r \<in> set (artists_table st)" "distinct (map item_id (artists_table st))"
  shows "get_db_item (item_id r) st = Some r"
proof -
  have "\<And>rows. r \<in> set rows \<Longrightarrow> distinct (map item_id rows) \<Longrightarrow>
          find (\<lambda>row. item_id row = item_id r) rows = Some r"
  proof -
    fix rows show "r \<in> set rows \<Longrightarrow> distinct (map item_id rows) \<Longrightarrow>
          find (\<lambda>row. item_id row = item_id r) rows = Some r"
      by (induction rows) (auto simp: rev_image_eqI)
  qed
  with assms show ?thesis by (simp add: get_db_item_def get_row_def)
qed

lemma update_db_item_merge_details:
  assumes "get_db_item iid st = Some cur"
  shows "\<exists>db_item st'. update_db_item iid item False st = Inr (db_item, st') \<and>
           get_db_item iid st' = Some db_item \<and>
           provider_ids db_item = provider_ids cur \<union> provider_ids item \<and>
           (\<forall>k. metadata db_item k =
                  (case metadata item k of Some v \<Rightarrow> Some v | None \<Rightarrow> metadata cur k)) \<and>
           name db_item = name cur \<and> sort_name db_item = sort_name cur \<and>
           length (artists_table st') = length (artists_table st) \<and>
           events st' = events st @ [\<lparr>event_type = MEDIA_ITEM_UPDATED, data = db_item\<rparr>]"
proof -
  let ?d = "merged_row cur item False cur"
  have g: "get_db_item iid (db_update iid (merged_row cur item False) st) = Some ?d"
    using assms by (subst get_db_item_db_update) (simp_all add: merged_row_def)
  have m: "\<forall>k. metadata ?d k =
             (case metadata item k of Some v \<Rightarrow> Some v | None \<Rightarrow> metadata cur k)"
    by (auto simp: merged_row_def merge_metadata_def map_add_def split: option.splits)
  have f: "provider_ids ?d = provider_ids cur \<union> provider_ids item"
    "name ?d = name cur" "sort_name ?d = sort_name cur"
    by (simp_all add: merged_row_def)
  show ?thesis
    unfolding update_db_item_Some[OF assms]
    using g m f by (simp add: db_update_def)
qed


section \<open>Properties of the store\<close>

text \<open>
  C1: for a record stored under \<open>iid\<close>, \<^verbatim>\<open>update_db_item\<close> with \<^verbatim>\<open>overwrite=True\<close>
  stores exactly the incoming item's provider ids; with \<^verbatim>\<open>overwrite=False\<close> it stores
  the union of the existing and the incoming provider ids and leaves \<^verbatim>\<open>name\<close> and
  \<^verbatim>\<open>sort_name\<close> as they were.
\<close>

theorem update_overwrite_vs_merge:
  assumes "get_db_item iid st = Some cur_item"
  shows "(\<exists>db_item st'. update_db_item iid item True st = Inr (db_item, st') \<and>
            get_db_item iid st' = Some db_item \<and>
            provider_ids db_item = provider_ids item) \<and>
         (\<exists>db_item st'. update_db_item iid item False st = Inr (db_item, st') \<and>
            get_db_item iid st' = Some db_item \<and>
            provider_ids db_item = provider_ids cur_item \<union> provider_ids item \<and>
            name db_item = name cur_item \<and> sort_name db_item = sort_name cur_item)"
proof
  from update_db_item_stored[OF assms, of item True]
  show "\<exists>db_item st'. update_db_item iid item True st = Inr (db_item, st') \<and>
            get_db_item iid st' = Some db_item \<and>
            provider_ids db_item = provider_ids item"
    by (auto simp: merged_row_def)
next
  from update_db_item_stored[OF assms, of item False]
  show "\<exists>db_item st'. update_db_item iid item False st = Inr (db_item, st') \<and>
            get_db_item iid st' = Some db_item \<and>
            provider_ids db_item = provider_ids cur_item \<union> provider_ids item \<and>
            name db_item = name cur_item \<and> sort_name db_item = sort_name cur_item"
    by (auto simp: merged_row_def)
qed

theorem update_overwrite_vs_merge_witness:
  "get_db_item ''1'' example_state = Some db_artist_1 \<and>
   (\<exists>db_item st'. update_db_item ''1'' prov_artist_1 True example_state = Inr (db_item, st') \<and>
      get_db_item ''1'' st' = Some db_item \<and>
      provider_ids db_item = {MediaItemProviderId ''q9'' ''qobuz'' ''qobuz''}) \<and>
   (\<exists>db_item st'. update_db_item ''1'' prov_artist_1 False example_state = Inr (db_item, st') \<and>
      get_db_item ''1'' st' = Some db_item \<and>
      provider_ids db_item =
        {MediaItemProviderId ''q1'' ''spotify'' ''spotify'',
         MediaItemProviderId ''q9'' ''qobuz'' ''qobuz''} \<and>
      name db_item = ''Queen'' \<and> sort_name db_item = ''queen'')"
proof -
  have p: "provider_ids prov_artist_1 = {MediaItemProviderId ''q9'' ''qobuz'' ''qobuz''}"
    "provider_ids db_artist_1 = {MediaItemProviderId ''q1'' ''spotify'' ''spotify''}"
    "name db_artist_1 = ''Queen''" "sort_name db_artist_1 = ''queen''"
    by (simp_all add: store_example_defs)
  from update_overwrite_vs_merge[OF example_get_1, of prov_artist_1] example_get_1
  show ?thesis by (simp add: p insert_commute)
qed

text \<open>
  C2: \<^verbatim>\<open>add_db_item\<close>, called as \<^verbatim>\<open>add\<close> calls it (\<^verbatim>\<open>overwrite_existing\<close> at its
  default \<^verbatim>\<open>False\<close>), on an item with provider ids.  Let \<open>r\<close> be the first row that
  carries the item's truthy musicbrainz id, whatever the sort names are, or, when the
  item has no musicbrainz id or no row carries it, the first row with the item's
  \<^verbatim>\<open>sort_name\<close>.  Then the call is the merge update of the record \<open>cur\<close> stored under
  \<open>r\<close>'s id, which is \<open>r\<close> itself when row ids are unique: afterwards that record holds
  the union of its own and the item's provider ids and the merged metadata, keeps its
  \<^verbatim>\<open>name\<close> and \<^verbatim>\<open>sort_name\<close>, no row is added and \<^verbatim>\<open>MEDIA_ITEM_UPDATED\<close> is the
  one event signalled.  When neither lookup finds a row, one row is appended to the
  table and \<^verbatim>\<open>MEDIA_ITEM_ADDED\<close> is signalled.
\<close>

theorem add_db_item_identity_lookup:
  "(provider_ids item \<noteq> {} \<and> artists_table st = pre @ r # post \<and>
    ((\<exists>m. musicbrainz_id item = Some m \<and> m \<noteq> [] \<and>
          (\<forall>x \<in> set pre. musicbrainz_id x \<noteq> Some m) \<and> musicbrainz_id r = Some m) \<or>
     ((musicbrainz_id item = None \<or> musicbrainz_id item = Some [] \<or>
         (\<forall>x \<in> set (artists_table st). musicbrainz_id x \<noteq> musicbrainz_id item)) \<and>
      (\<forall>x \<in> set pre. sort_name x \<noteq> sort_name item) \<and> sort_name r = sort_name item)) \<longrightarrow>
      (\<exists>cur db_item st'.
         get_db_item (item_id r) st = Some cur \<and>
         (distinct (map item_id (artists_table st)) \<longrightarrow> cur = r) \<and>
         add_db_item item False st = Inr (db_item, st') \<and>
         update_db_item (item_id r) item False st = Inr (db_item, st') \<and>
         get_db_item (item_id r) st' = Some db_item \<and>
         provider_ids db_item = provider_ids cur \<union> provider_ids item \<and>
         (\<forall>k. metadata db_item k =
                (case metadata item k of Some v \<Rightarrow> Some v | None \<Rightarrow> metadata cur k)) \<and>
         name db_item = name cur \<and> sort_name db_item = sort_name cur \<and>
         length (artists_table st') = length (artists_table st) \<and>
         events st' = events st @ [\<lparr>event_type = MEDIA_ITEM_UPDATED, data = db_item\<rparr>])) \<and>
   (provider_ids item \<noteq> {} \<and>
    (musicbrainz_id item = None \<or> musicbrainz_id item = Some [] \<or>
       (\<forall>x \<in> set (artists_table st). musicbrainz_id x \<noteq> musicbrainz_id item)) \<and>
    (\<forall>x \<in> set (artists_table st). sort_name x \<noteq> sort_name item) \<longrightarrow>
      (\<exists>db_item st'. add_db_item item False st = Inr (db_item, st') \<and>
         artists_table st' = artists_table st @
           [item\<lparr>item_id := str_nat (Suc (last_row_id st)), provider := ''database''\<rparr>] \<and>
         events st' = events st @ [\<lparr>event_type = MEDIA_ITEM_ADDED, data = db_item\<rparr>]))"
proof (intro conjI impI)
  assume h: "provider_ids item \<noteq> {} \<and> artists_table st = pre @ r # post \<and>
    ((\<exists>m. musicbrainz_id item = Some m \<and> m \<noteq> [] \<and>
          (\<forall>x \<in> set pre. musicbrainz_id x \<noteq> Some m) \<and> musicbrainz_id r = Some m) \<or>
     ((musicbrainz_id item = None \<or> musicbrainz_id item = Some [] \<or>
         (\<forall>x \<in> set (artists_table st). musicbrainz_id x \<noteq> musicbrainz_id item)) \<and>
      (\<forall>x \<in> set pre. sort_name x \<noteq> sort_name item) \<and> sort_name r = sort_name item))"
  then have e: "add_db_item item False st = update_db_item (item_id r) item False st"
    using add_db_item_by_musicbrainz_id[of item _ st pre r post False]
      add_db_item_by_sort_name[of item st pre r post False]
    by blast
  have mem: "r \<in> set (artists_table st)" using h by simp
  then obtain cur where c: "get_db_item (item_id r) st = Some cur"
    using get_db_item_member by blast
  have d: "distinct (map item_id (artists_table st)) \<longrightarrow> cur = r"
    using get_db_item_distinct[OF mem] c by auto
  obtain db_item st' where u: "update_db_item (item_id r) item False st = Inr (db_item, st')"
     "get_db_item (item_id r) st' = Some db_item"
     "provider_ids db_item = provider_ids cur \<union> provider_ids item"
     "\<forall>k. metadata db_item k =
            (case metadata item k of Some v \<Rightarrow> Some v | None \<Rightarrow> metadata cur k)"
     "name db_item = name cur" "sort_name db_item = sort_name cur"
     "length (artists_table st') = length (artists_table st)"
     "events st' = events st @ [\<lparr>event_type = MEDIA_ITEM_UPDATED, data = db_item\<rparr>]"
    using update_db_item_merge_details[OF c, of item] by blast
  from u c d e
  show "\<exists>cur db_item st'.
         get_db_item (item_id r) st = Some cur \<and>
         (distinct (map item_id (artists_table st)) \<longrightarrow> cur = r) \<and>
         add_db_item item False st = Inr (db_item, st') \<and>
         update_db_item (item_id r) item False st = Inr (db_item, st') \<and>
         get_db_item (item_id r) st' = Some db_item \<and>
         provider_ids db_item = provider_ids cur \<union> provider_ids item \<and>
         (\<forall>k. metadata db_item k =
                (case metadata item k of Some v \<Rightarrow> Some v | None \<Rightarrow> metadata cur k)) \<and>
         name db_item = name cur \<and> sort_name db_item = sort_name cur \<and>
         length (artists_table st') = length (artists_table st) \<and>
         events st' = events st @ [\<lparr>event_type = MEDIA_ITEM_UPDATED, data = db_item\<rparr>]"
    by (intro exI[of _ cur] exI[of _ db_item] exI[of _ st']) simp
next
  assume "provider_ids item \<noteq> {} \<and>
    (musicbrainz_id item = None \<or> musicbrainz_id item = Some [] \<or>
       (\<forall>x \<in> set (artists_table st). musicbrainz_id x \<noteq> musicbrainz_id item)) \<and>
    (\<forall>x \<in> set (artists_table st). sort_name x \<noteq> sort_name item)"
  then show "\<exists>db_item st'. add_db_item item False st = Inr (db_item, st') \<and>
         artists_table st' = artists_table st @
           [item\<lparr>item_id := str_nat (Suc (last_row_id st)), provider := ''database''\<rparr>] \<and>
         events st' = events st @ [\<lparr>event_type = MEDIA_ITEM_ADDED, data = db_item\<rparr>]"
    using add_db_item_insert[of item st False] by blast
qed

theorem add_db_item_identity_lookup_witness:
  "sort_name prov_artist_3 \<noteq> sort_name db_artist_1 \<and>
   musicbrainz_id prov_artist_3 = musicbrainz_id db_artist_1 \<and>
   (\<exists>db_item st'. add_db_item prov_artist_3 False example_state = Inr (db_item, st') \<and>
      get_db_item ''1'' st' = Some db_item \<and>
      provider_ids db_item =
        {MediaItemProviderId ''q1'' ''spotify'' ''spotify'',
         MediaItemProviderId ''q3'' ''tidal'' ''tidal''} \<and>
      name db_item = ''Queen'' \<and> sort_name db_item = ''queen'' \<and>
      length (artists_table st') = 2 \<and>
      events st' = [\<lparr>event_type = MEDIA_ITEM_UPDATED, data = db_item\<rparr>]) \<and>
   musicbrainz_id prov_artist_2 = None \<and>
   (\<exists>db_item st'. add_db_item prov_artist_2 False example_state = Inr (db_item, st') \<and>
      get_db_item ''2'' st' = Some db_item \<and>
      provider_ids db_item =
        {MediaItemProviderId ''m1'' ''spotify'' ''spotify'',
         MediaItemProviderId ''m7'' ''qobuz'' ''qobuz''} \<and>
      name db_item = ''Muse'' \<and> sort_name db_item = ''muse'' \<and>
      length (artists_table st') = 2 \<and>
      events st' = [\<lparr>event_type = MEDIA_ITEM_UPDATED, data = db_item\<rparr>]) \<and>
   (\<exists>db_item st'. add_db_item prov_artist_1 False example_state = Inr (db_item, st') \<and>
      map item_id (artists_table st') = [''1'', ''2'', ''3''] \<and>
      events st' = [\<lparr>event_type = MEDIA_ITEM_ADDED, data = db_item\<rparr>])"
proof -
  have t: "artists_table example_state = [] @ db_artist_1 # [db_artist_2]"
    "artists_table example_state = [db_artist_1] @ db_artist_2 # []"
    "events example_state = []" "last_row_id example_state = 2"
    "length (artists_table example_state) = 2"
    by (simp_all add: example_state_def)
  have f: "item_id db_artist_1 = ''1''" "item_id db_artist_2 = ''2''"
    "sort_name db_artist_1 = ''queen''" "sort_name db_artist_2 = ''muse''"
    "name db_artist_1 = ''Queen''" "name db_artist_2 = ''Muse''"
    "musicbrainz_id db_artist_1 = Some ''mb-queen''" "musicbrainz_id db_artist_2 = None"
    "provider_ids db_artist_1 = {MediaItemProviderId ''q1'' ''spotify'' ''spotify''}"
    "provider_ids db_artist_2 = {MediaItemProviderId ''m1'' ''spotify'' ''spotify''}"
    by (simp_all add: store_example_defs)
  have g: "sort_name prov_artist_3 = ''queen (band)''"
    "musicbrainz_id prov_artist_3 = Some ''mb-queen''"
    "provider_ids prov_artist_3 = {MediaItemProviderId ''q3'' ''tidal'' ''tidal''}"
    "sort_name prov_artist_2 = ''muse''" "musicbrainz_id prov_artist_2 = None"
    "provider_ids prov_artist_2 = {MediaItemProviderId ''m7'' ''qobuz'' ''qobuz''}"
    "sort_name prov_artist_1 = ''queen (band)''"
    "musicbrainz_id prov_artist_1 = Some ''mb-other''"
    "provider_ids prov_artist_1 \<noteq> {}"
    by (simp_all add: store_example_defs)
  have dist: "distinct (map item_id (artists_table example_state))"
    by (simp add: example_state_def f)
  have a: "\<exists>db_item st'. add_db_item prov_artist_3 False example_state = Inr (db_item, st') \<and>
      get_db_item ''1'' st' = Some db_item \<and>
      provider_ids db_item =
        {MediaItemProviderId ''q1'' ''spotify'' ''spotify'',
         MediaItemProviderId ''q3'' ''tidal'' ''tidal''} \<and>
      name db_item = ''Queen'' \<and> sort_name db_item = ''queen'' \<and>
      length (artists_table st') = 2 \<and>
      events st' = [\<lparr>event_type = MEDIA_ITEM_UPDATED, data = db_item\<rparr>]"
  proof -
    have "provider_ids prov_artist_3 \<noteq> {} \<and>
        artists_table example_state = [] @ db_artist_1 # [db_artist_2] \<and>
        ((\<exists>m. musicbrainz_id prov_artist_3 = Some m \<and> m \<noteq> [] \<and>
            (\<forall>x \<in> set []. musicbrainz_id x \<noteq> Some m) \<and> musicbrainz_id db_artist_1 = Some m) \<or>
         ((musicbrainz_id prov_artist_3 = None \<or> musicbrainz_id prov_artist_3 = Some [] \<or>
             (\<forall>x \<in> set (artists_table example_state).
                 musicbrainz_id x \<noteq> musicbrainz_id prov_artist_3)) \<and>
          (\<forall>x \<in> set []. sort_name x \<noteq> sort_name prov_artist_3) \<and>
          sort_name db_artist_1 = sort_name prov_artist_3))"
      by (simp add: t(1) f g)
    with add_db_item_identity_lookup[of prov_artist_3 example_state "[]" db_artist_1
           "[db_artist_2]", THEN conjunct1] dist
    show ?thesis by (fastforce simp: f g t(3,5) insert_commute)
  qed
  have b: "\<exists>db_item st'. add_db_item prov_artist_2 False example_state = Inr (db_item, st') \<and>
      get_db_item ''2'' st' = Some db_item \<and>
      provider_ids db_item =
        {MediaItemProviderId ''m1'' ''spotify'' ''spotify'',
         MediaItemProviderId ''m7'' ''qobuz'' ''qobuz''} \<and>
      name db_item = ''Muse'' \<and> sort_name db_item = ''muse'' \<and>
      length (artists_table st') = 2 \<and>
      events st' = [\<lparr>event_type = MEDIA_ITEM_UPDATED, data = db_item\<rparr>]"
  proof -
    have "provider_ids prov_artist_2 \<noteq> {} \<and>
        artists_table example_state = [db_artist_1] @ db_artist_2 # [] \<and>
        ((\<exists>m. musicbrainz_id prov_artist_2 = Some m \<and> m \<noteq> [] \<and>
            (\<forall>x \<in> set [db_artist_1]. musicbrainz_id x \<noteq> Some m) \<and>
            musicbrainz_id db_artist_2 = Some m) \<or>
         ((musicbrainz_id prov_artist_2 = None \<or> musicbrainz_id prov_artist_2 = Some [] \<or>
             (\<forall>x \<in> set (artists_table example_state).
                 musicbrainz_id x \<noteq> musicbrainz_id prov_artist_2)) \<and>
          (\<forall>x \<in> set [db_artist_1]. sort_name x \<noteq> sort_name prov_artist_2) \<and>
          sort_name db_artist_2 = sort_name prov_artist_2))"
      by (simp add: t(2) f g)
    with add_db_item_identity_lookup[of prov_artist_2 example_state "[db_artist_1]" db_artist_2
           "[]", THEN conjunct1] dist
    show ?thesis by (fastforce simp: f g t(3,5) insert_commute)
  qed
  have d: "\<exists>db_item st'. add_db_item prov_artist_1 False example_state = Inr (db_item, st') \<and>
      map item_id (artists_table st') = [''1'', ''2'', ''3''] \<and>
      events st' = [\<lparr>event_type = MEDIA_ITEM_ADDED, data = db_item\<rparr>]"
    using add_db_item_identity_lookup[of prov_artist_1 example_state pre db_artist_1 post,
            THEN conjunct2]
    by (auto simp add: t(1,3,4) f g str_nat_3)
  show ?thesis using a b d by (simp add: f g)
qed

text \<open>
  C5, as stated, fails: a merge update of a record that has a musicbrainz id with an
  item that carries another one stores the incoming id.
\<close>

theorem merge_update_keeps_existing_musicbrainz_id_counterexample:
  "map_option musicbrainz_id (get_db_item ''1'' example_state) = Some (Some ''mb-queen'') \<and>
   musicbrainz_id prov_artist_1 = Some ''mb-other'' \<and>
   map_option musicbrainz_id
     (stored_item ''1'' (update_db_item ''1'' prov_artist_1 False example_state))
     = Some (Some ''mb-other'')"
  by (simp add: stored_item_def update_db_item_def get_db_item_def get_row_def db_update_def
        py_or_def truthy_def Let_def store_example_defs)

text \<open>
  C5, amended: in a merge update (\<^verbatim>\<open>overwrite=False\<close>) the stored musicbrainz id is the
  incoming item's whenever that is present and non-empty; the existing record's id is
  kept only when the incoming item has none.
\<close>

theorem merge_update_musicbrainz_id:
  assumes "get_db_item iid st = Some cur_item"
  shows "\<exists>db_item st'. update_db_item iid item False st = Inr (db_item, st') \<and>
            get_db_item iid st' = Some db_item \<and>
            musicbrainz_id db_item =
              (case musicbrainz_id item of
                 None \<Rightarrow> musicbrainz_id cur_item
               | Some s \<Rightarrow> if s = [] then musicbrainz_id cur_item else Some s)"
  using update_db_item_stored[OF assms, of item False]
  by (auto simp: merged_row_def py_or_def truthy_def split: option.splits)

theorem merge_update_musicbrainz_id_witness:
  "get_db_item ''1'' example_state = Some db_artist_1 \<and>
   musicbrainz_id db_artist_1 = Some ''mb-queen'' \<and>
   (\<exists>db_item st'. update_db_item ''1'' prov_artist_1 False example_state = Inr (db_item, st') \<and>
      get_db_item ''1'' st' = Some db_item \<and> musicbrainz_id db_item = Some ''mb-other'') \<and>
   (\<exists>db_item st'.
      update_db_item ''1'' (prov_artist_1\<lparr>musicbrainz_id := None\<rparr>) False example_state
        = Inr (db_item, st') \<and>
      get_db_item ''1'' st' = Some db_item \<and> musicbrainz_id db_item = Some ''mb-queen'')"
proof -
  have m: "musicbrainz_id prov_artist_1 = Some ''mb-other''"
    "musicbrainz_id db_artist_1 = Some ''mb-queen''"
    by (simp_all add: store_example_defs)
  from merge_update_musicbrainz_id[OF example_get_1, of prov_artist_1]
    merge_update_musicbrainz_id[OF example_get_1, of "prov_artist_1\<lparr>musicbrainz_id := None\<rparr>"]
    example_get_1
  show ?thesis by (simp add: m)
qed

text \<open>
  C6: in a merge update (\<^verbatim>\<open>overwrite=False\<close>) the stored metadata has, under every key,
  the incoming item's value when the incoming metadata has the key, and the existing
  record's entry otherwise.
\<close>

theorem merge_update_metadata:
  assumes "get_db_item iid st = Some cur_item"
  shows "\<exists>db_item st'. update_db_item iid item False st = Inr (db_item, st') \<and>
            get_db_item iid st' = Some db_item \<and>
            (\<forall>k. metadata db_item k =
                   (case metadata item k of
                      Some v \<Rightarrow> Some v
                    | None \<Rightarrow> metadata cur_item k))"
  using update_db_item_stored[OF assms, of item False]
  by (auto simp: merged_row_def merge_metadata_def map_add_def split: option.splits)

theorem merge_update_metadata_witness:
  "get_db_item ''1'' example_state = Some db_artist_1 \<and>
   metadata db_artist_1 ''genre'' = Some ''rock'' \<and> metadata db_artist_1 ''bio'' = Some ''old'' \<and>
   metadata prov_artist_1 ''genre'' = None \<and> metadata prov_artist_1 ''bio'' = Some ''new'' \<and>
   metadata prov_artist_1 ''image'' = Some ''url'' \<and>
   (\<exists>db_item st'. update_db_item ''1'' prov_artist_1 False example_state = Inr (db_item, st') \<and>
      get_db_item ''1'' st' = Some db_item \<and>
      metadata db_item ''genre'' = Some ''rock'' \<and> metadata db_item ''bio'' = Some ''new'' \<and>
      metadata db_item ''image'' = Some ''url'')"
proof -
  have m: "metadata db_artist_1 ''genre'' = Some ''rock''" "metadata db_artist_1 ''bio'' = Some ''old''"
    "metadata prov_artist_1 ''genre'' = None" "metadata prov_artist_1 ''bio'' = Some ''new''"
    "metadata prov_artist_1 ''image'' = Some ''url''"
    by (simp_all add: store_example_defs)
  from merge_update_metadata[OF example_get_1, of prov_artist_1] example_get_1
  show ?thesis by (auto simp: m)
qed

section \<open>Lemmas about the loops of the match\<close>

lemma match_track_artists_None:
  "match_track_artists db_artist xs = None \<longleftrightarrow> (\<forall>a \<in> set xs. sort_name a \<noteq> sort_name db_artist)"
  by (induction xs) auto

lemma match_track_results_None:
  "match_track_results db_artist ref_track rs = None \<longleftrightarrow>
     (\<forall>r \<in> set rs. \<forall>a. \<not> track_confirms db_artist ref_track r a)"
proof (induction rs)
  case Nil
  show ?case by simp
next
  case (Cons r rs)
  show ?case
  proof (cases "match_track_artists db_artist (artists r)")
    case None
    then show ?thesis
      using Cons.IH match_track_artists_None[of db_artist "artists r"]
      by (auto simp: track_confirms_def)
  next
    case (Some a)
    then have "\<not> (\<forall>a \<in> set (artists r). sort_name a \<noteq> sort_name db_artist)"
      using match_track_artists_None[of db_artist "artists r"] by simp
    then show ?thesis
      using Some Cons.IH by (auto simp: track_confirms_def)
  qed
qed

lemma match_track_search_None:
  "match_track_search mass prov db_artist ref_track strs = None \<longleftrightarrow>
     (\<forall>s \<in> set strs. \<forall>r \<in> set (tracks_search mass s prov). \<forall>a.
        \<not> track_confirms db_artist ref_track r a)"
proof (induction strs)
  case Nil
  show ?case by simp
next
  case (Cons s strs)
  show ?case
  proof (cases "match_track_results db_artist ref_track (tracks_search mass s prov)")
    case None
    then show ?thesis
      using Cons.IH match_track_results_None[of db_artist ref_track "tracks_search mass s prov"]
      by simp
  next
    case (Some a)
    then have "\<not> (\<forall>r \<in> set (tracks_search mass s prov). \<forall>a. \<not> track_confirms db_artist ref_track r a)"
      using match_track_results_None[of db_artist ref_track "tracks_search mass s prov"] by simp
    then show ?thesis
      using Some by auto
  qed
qed

lemma match_ref_tracks_None:
  "match_ref_tracks mass prov db_artist ts = None \<longleftrightarrow>
     (\<forall>t \<in> set ts. \<forall>s \<in> set (track_search_strs db_artist (full_track mass t)).
        \<forall>r \<in> set (tracks_search mass s prov). \<forall>a.
          \<not> track_confirms db_artist (full_track mass t) r a)"
proof (induction ts)
  case Nil
  show ?case by simp
next
  case (Cons t ts)
  let ?inner = "match_track_search mass prov db_artist (full_track mass t)
                  (track_search_strs db_artist (full_track mass t))"
  show ?case
  proof (cases ?inner)
    case None
    then show ?thesis
      using Cons.IH
        match_track_search_None[of mass prov db_artist "full_track mass t"
          "track_search_strs db_artist (full_track mass t)"]
      by (simp add: Let_def)
  next
    case (Some a)
    then have "\<not> (\<forall>s \<in> set (track_search_strs db_artist (full_track mass t)).
        \<forall>r \<in> set (tracks_search mass s prov). \<forall>a.
          \<not> track_confirms db_artist (full_track mass t) r a)"
      using match_track_search_None[of mass prov db_artist "full_track mass t"
          "track_search_strs db_artist (full_track mass t)"] by simp
    then show ?thesis
      using Some by (auto simp: Let_def)
  qed
qed

lemma match_album_results_None:
  "match_album_results ref_album ra rs = None \<longleftrightarrow>
     (\<forall>r \<in> set rs. \<forall>a. \<not> album_confirms ref_album ra r a)"
  by (induction rs) (auto simp: album_confirms_def split: option.splits)

lemma match_album_results_Some:
  "match_album_results ref_album ra rs = Some a \<Longrightarrow>
     \<exists>r \<in> set rs. album_confirms ref_album ra r a"
  by (induction rs) (auto simp: album_confirms_def split: option.splits if_splits)

lemma match_album_search_None:
  "match_album_search mass prov ref_album ra strs = None \<longleftrightarrow>
     (\<forall>s \<in> set strs. \<forall>r \<in> set (albums_search mass s prov). \<forall>a.
        \<not> album_confirms ref_album ra r a)"
proof (induction strs)
  case Nil
  show ?case by simp
next
  case (Cons s strs)
  show ?case
  proof (cases "match_album_results ref_album ra (albums_search mass s prov)")
    case None
    then show ?thesis
      using Cons.IH match_album_results_None[of ref_album ra "albums_search mass s prov"]
      by simp
  next
    case (Some a)
    then show ?thesis
      using match_album_results_Some[OF Some] by auto
  qed
qed

lemma match_album_search_Some:
  "match_album_search mass prov ref_album ra strs = Some a \<Longrightarrow>
     \<exists>s \<in> set strs. \<exists>r \<in> set (albums_search mass s prov). album_confirms ref_album ra r a"
  by (induction strs) (auto dest: match_album_results_Some split: option.splits)

lemma match_ref_albums_Some:
  "match_ref_albums mass prov db_artist als = Some a \<Longrightarrow>
     \<exists>ref_album \<in> set als. album_phase_confirms mass prov db_artist ref_album a"
  by (induction als)
     (auto simp: album_phase_confirms_def dest: match_album_search_Some
           split: option.splits if_splits)

lemma match_ref_albums_None:
  "match_ref_albums mass prov db_artist als = None \<longleftrightarrow>
     (\<forall>ref_album \<in> set als. \<forall>a. \<not> album_phase_confirms mass prov db_artist ref_album a)"
proof (induction als)
  case Nil
  show ?case by simp
next
  case (Cons x als)
  show ?case
  proof (cases "album_type x = COMPILATION \<or> artist x = None")
    case True
    then show ?thesis
      using Cons.IH by (auto simp: album_phase_confirms_def)
  next
    case False
    then obtain ra where ra: "artist x = Some ra" and nc: "album_type x \<noteq> COMPILATION" by auto
    show ?thesis
    proof (cases "match_album_search mass prov x ra (album_search_strs db_artist x)")
      case None
      then show ?thesis
        using Cons.IH ra nc
          match_album_search_None[of mass prov x ra "album_search_strs db_artist x"]
        by (auto simp: album_phase_confirms_def)
    next
      case (Some a)
      then show ?thesis
        using ra nc match_album_search_Some[OF Some]
        by (auto simp: album_phase_confirms_def)
    qed
  qed
qed

lemmas match_example_defs =
  example_mass_def example_mass_2_def ref_album_1_def result_album_1_def result_album_2_def
  result_track_1_def ref_album_artist_def result_album_artist_def other_artist_def
  prov_artist_4_def example_album_def example_track_def track_1_def
  example_artist_def db_artist_1_def db_artist_2_def example_state_def

lemma example_toptracks: "toptracks [track_1] = [track_1]"
  by (simp add: toptracks_def dict_values_def dict_contains_def)

lemma example_albums: "albums [ref_album_1] = [ref_album_1]"
  by (simp add: albums_def dict_values_def dict_contains_def Let_def ref_album_1_def
        example_album_def)

lemma example_track_phase:
  "\<forall>ref_track \<in> set (toptracks (provider_toptracks example_mass_2 (item_id db_artist_1))).
     \<forall>search_str \<in> set (track_search_strs db_artist_1 (full_track example_mass_2 ref_track)).
       \<forall>r \<in> set (tracks_search example_mass_2 search_str ''qobuz'').
         sort_name r = sort_name (full_track example_mass_2 ref_track) \<longrightarrow>
         (\<forall>a \<in> set (artists r). sort_name a \<noteq> sort_name db_artist_1)"
proof -
  have "provider_toptracks example_mass_2 (item_id db_artist_1) = [track_1]"
    by (simp add: example_mass_2_def example_mass_def db_artist_1_def example_artist_def)
  moreover have "\<And>s. tracks_search example_mass_2 s ''qobuz'' = [result_track_1]"
    by (simp add: example_mass_2_def example_mass_def)
  moreover have "artists result_track_1 = [other_artist]"
    by (simp add: result_track_1_def)
  moreover have "sort_name other_artist \<noteq> sort_name db_artist_1"
    by (simp add: other_artist_def db_artist_1_def example_artist_def)
  ultimately show ?thesis by (simp add: example_toptracks)
qed

lemma example_album_phase:
  "\<forall>ref_album \<in> set (albums (provider_albums example_mass_2 (item_id db_artist_1))).
     \<forall>ra. album_type ref_album \<noteq> COMPILATION \<and> artist ref_album = Some ra \<longrightarrow>
       (\<forall>search_str \<in> set (album_search_strs db_artist_1 ref_album).
          \<forall>r \<in> set (albums_search example_mass_2 search_str ''qobuz'').
            \<forall>a. artist r = Some a \<and> sort_name r = sort_name ref_album \<longrightarrow>
                sort_name a \<noteq> sort_name ra)"
proof -
  have "provider_albums example_mass_2 (item_id db_artist_1) = [ref_album_1]"
    by (simp add: example_mass_2_def example_mass_def db_artist_1_def example_artist_def)
  moreover have "\<And>s. albums_search example_mass_2 s ''qobuz'' = [result_album_2]"
    by (simp add: example_mass_2_def example_mass_def)
  moreover have "artist result_album_2 = Some other_artist" "artist ref_album_1 = Some ref_album_artist"
    by (simp_all add: result_album_2_def ref_album_1_def)
  moreover have "sort_name other_artist \<noteq> sort_name ref_album_artist"
    by (simp add: other_artist_def ref_album_artist_def)
  ultimately show ?thesis by (simp add: example_albums)
qed


section \<open>Properties of the match\<close>

text \<open>
  What \<^verbatim>\<open>_match\<close> does when the tests it makes confirm nothing: no track search
  result with the reference track's \<^verbatim>\<open>sort_name\<close> credits an artist with the database
  artist's \<^verbatim>\<open>sort_name\<close>, and no album search result matches a reference album in
  \<^verbatim>\<open>sort_name\<close> and that album's artist in \<^verbatim>\<open>sort_name\<close>.  Then it returns
  \<^verbatim>\<open>False\<close> and leaves the whole state, table and events, as it was.
\<close>

lemma match_without_confirmation:
  assumes "\<forall>ref_track \<in> set (toptracks (provider_toptracks mass (item_id db_artist))).
             \<forall>search_str \<in> set (track_search_strs db_artist (full_track mass ref_track)).
               \<forall>r \<in> set (tracks_search mass search_str prov).
                 sort_name r = sort_name (full_track mass ref_track) \<longrightarrow>
                 (\<forall>a \<in> set (artists r). sort_name a \<noteq> sort_name db_artist)"
    and "\<forall>ref_album \<in> set (albums (provider_albums mass (item_id db_artist))).
           \<forall>ra. album_type ref_album \<noteq> COMPILATION \<and> artist ref_album = Some ra \<longrightarrow>
             (\<forall>search_str \<in> set (album_search_strs db_artist ref_album).
                \<forall>r \<in> set (albums_search mass search_str prov).
                  \<forall>a. artist r = Some a \<and> sort_name r = sort_name ref_album \<longrightarrow>
                      sort_name a \<noteq> sort_name ra)"
  shows "match mass db_artist prov st = Inr (False, st)"
proof -
  have t: "match_ref_tracks mass prov db_artist
             (toptracks (provider_toptracks mass (item_id db_artist))) = None"
    unfolding match_ref_tracks_None track_confirms_def using assms(1) by blast
  have a: "match_ref_albums mass prov db_artist
             (albums (provider_albums mass (item_id db_artist))) = None"
    unfolding match_ref_albums_None album_phase_confirms_def album_confirms_def
    using assms(2) by blast
  show ?thesis by (simp add: match_def t a)
qed

lemma match_without_confirmation_example:
  "tracks_search example_mass_2 ''Queen - Hello'' ''qobuz'' = [result_track_1] \<and>
   albums_search example_mass_2 ''Best'' ''qobuz'' = [result_album_2] \<and>
   match example_mass_2 db_artist_1 ''qobuz'' example_state = Inr (False, example_state)"
proof -
  have "tracks_search example_mass_2 ''Queen - Hello'' ''qobuz'' = [result_track_1]"
    "albums_search example_mass_2 ''Best'' ''qobuz'' = [result_album_2]"
    by (simp_all add: example_mass_2_def example_mass_def)
  with match_without_confirmation[OF example_track_phase example_album_phase, of example_state]
  show ?thesis by simp
qed

text \<open>
  C7: the album phase is to confirm a result only when its artist's \<^verbatim>\<open>sort_name\<close>
  equals the database artist's, as the track phase does and as the docstring of
  \<^verbatim>\<open>_match\<close> asks.  The code tests the result's artist against the reference
  album's artist instead.  For the artist "Queen" with a reference album credited to
  "Queen + Friends", the album result credited to "Queen + Friends" is confirmed:
  \<^verbatim>\<open>_match\<close> returns \<^verbatim>\<open>True\<close> and the record of "Queen" gains the provider id
  of "Queen + Friends".
\<close>

theorem album_phase_confirms_other_artist:
  "sort_name db_artist_1 = ''queen'' \<and>
   provider_albums example_mass ''1'' = [ref_album_1] \<and>
   map_option sort_name (artist ref_album_1) = Some ''queen friends'' \<and>
   albums_search example_mass ''Best'' ''qobuz'' = [result_album_1] \<and>
   sort_name result_album_1 = sort_name ref_album_1 \<and>
   map_option sort_name (artist result_album_1) = Some ''queen friends'' \<and>
   returned (match example_mass db_artist_1 ''qobuz'' example_state) = Some True \<and>
   map_option provider_ids (stored_item ''1'' (match example_mass db_artist_1 ''qobuz'' example_state))
     = Some {MediaItemProviderId ''q1'' ''spotify'' ''spotify'',
             MediaItemProviderId ''q9'' ''qobuz'' ''qobuz''}"
  by (simp add: match_def confirm_match_def update_db_item_def get_db_item_def get_row_def
        db_update_def returned_def stored_item_def toptracks_def albums_def dict_values_def
        dict_contains_def key_of_def Let_def full_track_def track_search_strs_def
        album_search_strs_def merge_metadata_def py_or_def truthy_def match_example_defs
        insert_commute)

text \<open>
  C9: when no search of either phase yields a double match against the database
  artist's \<^verbatim>\<open>sort_name\<close>, \<^verbatim>\<open>_match\<close> is to return \<^verbatim>\<open>False\<close> and leave the record
  as it was.  On the input of C7 there is no such double match, yet \<^verbatim>\<open>_match\<close>
  returns \<^verbatim>\<open>True\<close> and the stored provider ids grow: the same comparison of the
  album phase is at fault.
\<close>

theorem match_succeeds_without_double_match:
  "\<not> spec_double_match example_mass ''qobuz'' db_artist_1 \<and>
   match example_mass db_artist_1 ''qobuz'' example_state \<noteq> Inr (False, example_state) \<and>
   returned (match example_mass db_artist_1 ''qobuz'' example_state) = Some True \<and>
   map_option provider_ids (get_db_item ''1'' example_state)
     = Some {MediaItemProviderId ''q1'' ''spotify'' ''spotify''} \<and>
   map_option provider_ids (stored_item ''1'' (match example_mass db_artist_1 ''qobuz'' example_state))
     = Some {MediaItemProviderId ''q1'' ''spotify'' ''spotify'',
             MediaItemProviderId ''q9'' ''qobuz'' ''qobuz''}"
  by (simp add: spec_double_match_def match_def confirm_match_def update_db_item_def
        get_db_item_def get_row_def
        db_update_def returned_def stored_item_def toptracks_def albums_def dict_values_def
        dict_contains_def key_of_def Let_def full_track_def track_search_strs_def
        album_search_strs_def merge_metadata_def py_or_def truthy_def match_example_defs
        insert_commute)

end
